theory Spec2Isabelle
  imports Complex_Main
begin

section \<open>ORION Digital Twin Consciousness: the engine of conscious_twin.py\<close>

text \<open>
  Shallow embedding of \<^verbatim>\<open>src/orion_dtc/conscious_twin.py\<close>.

  Python floats are modelled by the real numbers they denote: sums, quotients,
  \<^verbatim>\<open>abs\<close>, \<^verbatim>\<open>min\<close>, \<^verbatim>\<open>max\<close> and \<^verbatim>\<open>round\<close> are exact. The one float operation of the
  source that raises, \<^verbatim>\<open>x ** 2\<close> (CPython raises OverflowError when the result
  leaves the range of a double), keeps its raising branch. Every other place where
  Python can raise (a division, an index from the end of a list, a dictionary
  subscript) is a checked primitive whose failure is a value \<open>Inl error\<close>. A call of
  \<^verbatim>\<open>sync\<close> that raises hands back the exception together with the engine as the
  exception left it: what the call had appended before it raised stays appended.
  Dictionaries are association lists in insertion order; a well-formed
  dictionary has distinct keys.
\<close>

subsection \<open>Errors and the checked primitives of Python\<close>

datatype py_error = ZeroDivisionError | IndexError | KeyError | OverflowError

definition py_bind :: "'e + 'a \<Rightarrow> ('a \<Rightarrow> 'e + 'b) \<Rightarrow> 'e + 'b" where
  "py_bind m f = (case m of Inl e \<Rightarrow> Inl e | Inr x \<Rightarrow> f x)"

text \<open>\<^verbatim>\<open>a / b\<close>\<close>
definition py_div :: "real \<Rightarrow> real \<Rightarrow> py_error + real" where
  "py_div a b = (if b = 0 then Inl ZeroDivisionError else Inr (a / b))"

text \<open>\<^verbatim>\<open>xs[-k]\<close> for \<open>k \<ge> 1\<close>\<close>
definition py_index_back :: "'a list \<Rightarrow> nat \<Rightarrow> py_error + 'a" where
  "py_index_back xs k =
     (if 1 \<le> k \<and> k \<le> length xs then Inr (xs ! (length xs - k)) else Inl IndexError)"

text \<open>\<^verbatim>\<open>xs[-k:]\<close>: the last \<open>k\<close> elements, all of them when there are fewer.\<close>
definition py_slice_back :: "'a list \<Rightarrow> nat \<Rightarrow> 'a list" where
  "py_slice_back xs k = drop (length xs - k) xs"

text \<open>\<^verbatim>\<open>key in d\<close>, \<^verbatim>\<open>d[key]\<close>, \<^verbatim>\<open>d.get(key, default)\<close> and \<^verbatim>\<open>d[key] = v\<close>\<close>
definition py_contains :: "('k \<times> 'v) list \<Rightarrow> 'k \<Rightarrow> bool" where
  "py_contains d key = (map_of d key \<noteq> None)"

definition py_getitem :: "('k \<times> 'v) list \<Rightarrow> 'k \<Rightarrow> py_error + 'v" where
  "py_getitem d key = (case map_of d key of None \<Rightarrow> Inl KeyError | Some v \<Rightarrow> Inr v)"

definition py_get :: "('k \<times> 'v) list \<Rightarrow> 'k \<Rightarrow> 'v \<Rightarrow> 'v" where
  "py_get d key dflt = (case map_of d key of None \<Rightarrow> dflt | Some v \<Rightarrow> v)"

fun py_setitem :: "('k \<times> 'v) list \<Rightarrow> 'k \<Rightarrow> 'v \<Rightarrow> ('k \<times> 'v) list" where
  "py_setitem [] key v = [(key, v)]"
| "py_setitem ((k, w) # d) key v =
     (if k = key then (k, v) # d else (k, w) # py_setitem d key v)"

text \<open>
  \<^verbatim>\<open>x ** 2\<close> on a float: CPython's \<^verbatim>\<open>float_pow\<close> raises OverflowError when the
  result is out of range. A square rounds to infinity from \<open>2^1024 - 2^970\<close> on
  (the largest double plus half a unit in the last place).
\<close>
definition float_overflow :: real where
  "float_overflow = 2 ^ 1024 - 2 ^ 970"

definition float_pow2 :: "real \<Rightarrow> py_error + real" where
  "float_pow2 x = (if float_overflow \<le> x ^ 2 then Inl OverflowError else Inr (x ^ 2))"

text \<open>
  \<^verbatim>\<open>round(x, ndigits)\<close>: the nearest multiple of \<open>10^-ndigits\<close>, a tie going to the
  even one.
\<close>
definition round_half_even :: "real \<Rightarrow> int" where
  "round_half_even y =
     (let f = \<lfloor>y\<rfloor>; d = y - of_int f
      in if d < 1 / 2 then f else if 1 / 2 < d then f + 1
         else if even f then f else f + 1)"

definition py_round :: "real \<Rightarrow> nat \<Rightarrow> real" where
  "py_round x ndigits = of_int (round_half_even (x * 10 ^ ndigits)) / 10 ^ ndigits"

subsection \<open>Data model\<close>

type_synonym sensor_dict = "(string \<times> real) list"

record PhysicalState =
  device_id :: string
  sensors :: sensor_dict
  actuators :: sensor_dict
  health :: real
  timestamp :: string

record TwinState =
  twin_id :: string
  sync_accuracy :: real
  prediction_accuracy :: real
  anomalies_detected :: nat
  consciousness_level :: string
  consciousness_score :: real
  proof_hash :: string

text \<open>A prediction is the dictionary \<^verbatim>\<open>{"sensors": {...}}\<close>.\<close>
type_synonym prediction = "(string \<times> sensor_dict) list"

text \<open>The fields of \<^verbatim>\<open>self\<close>.\<close>
record ConsciousDigitalTwin =
  self_twin_id :: string
  self_device_id :: string
  physical_history :: "PhysicalState list"
  twin_history :: "TwinState list"
  proof_chain :: "string list"
  predictions :: "prediction list"

text \<open>\<^verbatim>\<open>__init__\<close>\<close>
definition init :: "string \<Rightarrow> string \<Rightarrow> ConsciousDigitalTwin" where
  "init tid did =
     \<lparr>self_twin_id = tid, self_device_id = did, physical_history = [],
      twin_history = [], proof_chain = [], predictions = []\<rparr>"

text \<open>
  The dictionary handed to \<^verbatim>\<open>json.dumps\<close>, and the two library functions of the
  proof step, \<^verbatim>\<open>json.dumps(..., sort_keys=True)\<close> and
  \<^verbatim>\<open>hashlib.sha256(s.encode()).hexdigest()\<close>. The libraries are not part of the
  repository: they are parameters of \<open>sync\<close>.
\<close>
record proof_data =
  pd_twin_id :: string
  pd_timestamp :: string
  pd_score :: real
  pd_level :: string
  pd_anomalies :: nat

record library =
  json_dumps :: "proof_data \<Rightarrow> string"
  sha256_hexdigest :: "string \<Rightarrow> string"

subsection \<open>The indicators\<close>

text \<open>The loop of \<^verbatim>\<open>_compute_sync_accuracy\<close>: the list \<^verbatim>\<open>errors\<close> it builds.\<close>
fun sync_errors :: "sensor_dict \<Rightarrow> sensor_dict \<Rightarrow> py_error + real list" where
  "sync_errors [] cur = Inr []"
| "sync_errors ((key, pred_val) # items) cur =
     (if py_contains cur key
      then py_bind (py_getitem cur key) (\<lambda>actual.
           py_bind (sync_errors items cur) (\<lambda>errors.
           Inr ((1 - min 1 \<bar>pred_val - actual\<bar>) # errors)))
      else sync_errors items cur)"

definition compute_sync_accuracy :: "ConsciousDigitalTwin \<Rightarrow> PhysicalState \<Rightarrow> py_error + real" where
  "compute_sync_accuracy self physical =
     (if predictions self = [] then Inr 0.5
      else py_bind (py_index_back (predictions self) 1) (\<lambda>last_pred.
           py_bind (sync_errors (py_get last_pred ''sensors'' []) (sensors physical)) (\<lambda>errors.
           py_div (sum_list errors) (real (max (length errors) 1)))))"

definition evaluate_predictions :: "ConsciousDigitalTwin \<Rightarrow> PhysicalState \<Rightarrow> real" where
  "evaluate_predictions self physical =
     (if length (physical_history self) < 3 then 0.3
      else min 1 (real (length (physical_history self)) / 20))"

text \<open>The loop of \<^verbatim>\<open>_detect_anomalies\<close> over the keys of the new snapshot.\<close>
fun count_anomalies :: "string list \<Rightarrow> sensor_dict \<Rightarrow> sensor_dict \<Rightarrow> py_error + nat" where
  "count_anomalies [] cur prev = Inr 0"
| "count_anomalies (key # keys) cur prev =
     (if py_contains prev key
      then py_bind (py_getitem cur key) (\<lambda>a.
           py_bind (py_getitem prev key) (\<lambda>b.
           py_bind (count_anomalies keys cur prev) (\<lambda>anomalies.
           Inr (if 0.5 < \<bar>a - b\<bar> then anomalies + 1 else anomalies))))
      else count_anomalies keys cur prev)"

definition detect_anomalies :: "ConsciousDigitalTwin \<Rightarrow> PhysicalState \<Rightarrow> py_error + nat" where
  "detect_anomalies self physical =
     (if length (physical_history self) < 2 then Inr 0
      else py_bind (py_index_back (physical_history self) 2) (\<lambda>prev.
           count_anomalies (map fst (sensors physical)) (sensors physical) (sensors prev)))"

text \<open>\<^verbatim>\<open>sum((v - mean) ** 2 for v in values)\<close>\<close>
fun sum_squares :: "real list \<Rightarrow> real \<Rightarrow> py_error + real" where
  "sum_squares [] mean = Inr 0"
| "sum_squares (v # values) mean =
     py_bind (float_pow2 (v - mean)) (\<lambda>sq.
     py_bind (sum_squares values mean) (\<lambda>rest. Inr (sq + rest)))"

definition sensor_integration :: "PhysicalState \<Rightarrow> py_error + real" where
  "sensor_integration physical =
     (if sensors physical = [] then Inr 0
      else let values = map snd (sensors physical)
           in if length values < 2 then Inr 0.3
              else py_bind (py_div (sum_list values) (real (length values))) (\<lambda>mean.
                   if mean = 0 then Inr 0
                   else py_bind (sum_squares values mean) (\<lambda>squares.
                        py_bind (py_div squares (real (length values))) (\<lambda>variance.
                        py_bind (py_div (sqrt variance) \<bar>mean\<bar>) (\<lambda>cv.
                        Inr (max 0 (min 1 (1 - cv))))))))"

definition attention_focus :: "PhysicalState \<Rightarrow> real" where
  "attention_focus physical = min 1 (health physical)"

definition behavioral_consistency :: "ConsciousDigitalTwin \<Rightarrow> py_error + real" where
  "behavioral_consistency self =
     (if length (twin_history self) < 3 then Inr 0.5
      else let recent = map consciousness_score (py_slice_back (twin_history self) 5)
           in py_bind (py_div (sum_list recent) (real (length recent))) (\<lambda>mean.
              py_bind (sum_squares recent mean) (\<lambda>squares.
              py_bind (py_div squares (real (length recent))) (\<lambda>variance.
              Inr (max 0 (1 - variance * 10))))))"

text \<open>The loop of \<^verbatim>\<open>_make_prediction\<close>, filling \<^verbatim>\<open>prediction["sensors"]\<close>.\<close>
fun predict_sensors ::
  "sensor_dict \<Rightarrow> PhysicalState list \<Rightarrow> sensor_dict \<Rightarrow> py_error + sensor_dict" where
  "predict_sensors [] history acc = Inr acc"
| "predict_sensors ((key, val) # items) history acc =
     (if 2 \<le> length history
      then py_bind (py_index_back history 2) (\<lambda>before.
           let prev = py_get (sensors before) key val;
               trend = val - prev
           in predict_sensors items history (py_setitem acc key (val + trend * 0.5)))
      else predict_sensors items history (py_setitem acc key val))"

definition make_prediction :: "ConsciousDigitalTwin \<Rightarrow> PhysicalState \<Rightarrow> py_error + ConsciousDigitalTwin" where
  "make_prediction self physical =
     py_bind (predict_sensors (sensors physical) (physical_history self) []) (\<lambda>predicted.
     Inr (self\<lparr>predictions := predictions self @ [[(''sensors'', predicted)]]\<rparr>))"

subsection \<open>The pipeline of sync\<close>

text \<open>Lines 77 to 81: the label of a composite score.\<close>
definition classify :: "real \<Rightarrow> string" where
  "classify score =
     (if 0.85 \<le> score then ''C-4 Transcendent''
      else if 0.70 \<le> score then ''C-3 Autonomous''
      else if 0.50 \<le> score then ''C-2 Emerging''
      else if 0.20 \<le> score then ''C-1 Functional''
      else ''C-0 Reactive'')"

text \<open>
  Lines 66 to 75: the values of the dictionary \<^verbatim>\<open>indicators\<close>, in the order of its
  keys, and their mean. \<open>self\<close> is the engine after the new snapshot was appended.
\<close>
definition indicators ::
  "ConsciousDigitalTwin \<Rightarrow> PhysicalState \<Rightarrow> real \<Rightarrow> real \<Rightarrow> py_error + real list" where
  "indicators self physical sync_acc prediction_acc =
     py_bind (sensor_integration physical) (\<lambda>integration.
     py_bind (behavioral_consistency self) (\<lambda>consistency.
     Inr [sync_acc, min 1 (real (length (twin_history self)) / 10), integration,
          prediction_acc, attention_focus physical, consistency]))"

definition composite_score ::
  "ConsciousDigitalTwin \<Rightarrow> PhysicalState \<Rightarrow> real \<Rightarrow> real \<Rightarrow> py_error + real" where
  "composite_score self physical sync_acc prediction_acc =
     py_bind (indicators self physical sync_acc prediction_acc) (\<lambda>values.
     py_div (sum_list values) (real (length values)))"

text \<open>
  An exception inside \<^verbatim>\<open>sync\<close> leaves the method with the engine in the state
  \<open>self\<close> it had when the exception was raised.
\<close>
definition raised_in ::
  "ConsciousDigitalTwin \<Rightarrow> py_error + 'a \<Rightarrow> (py_error \<times> ConsciousDigitalTwin) + 'a" where
  "raised_in self m = (case m of Inl e \<Rightarrow> Inl (e, self) | Inr x \<Rightarrow> Inr x)"

text \<open>
  \<^verbatim>\<open>sync\<close>: the engine after the call and the returned \<^verbatim>\<open>TwinState\<close>, or the
  exception that leaves the call and the engine it leaves behind. The snapshot is
  appended first (line 54), the proof hash after the score is computed (line 92), the
  prediction and the state last.
\<close>
definition sync ::
  "library \<Rightarrow> ConsciousDigitalTwin \<Rightarrow> PhysicalState \<Rightarrow>
   (py_error \<times> ConsciousDigitalTwin) + (ConsciousDigitalTwin \<times> TwinState)" where
  "sync lib self0 physical =
     (let self1 = self0\<lparr>physical_history := physical_history self0 @ [physical]\<rparr>
      in py_bind (raised_in self1 (compute_sync_accuracy self1 physical)) (\<lambda>sync_acc.
         let prediction_acc = evaluate_predictions self1 physical
         in py_bind (raised_in self1 (detect_anomalies self1 physical)) (\<lambda>anomalies.
            py_bind (raised_in self1 (composite_score self1 physical sync_acc prediction_acc)) (\<lambda>score.
            let level = classify score;
                proof_data = \<lparr>pd_twin_id = self_twin_id self1,
                              pd_timestamp = timestamp physical,
                              pd_score = py_round score 6,
                              pd_level = level,
                              pd_anomalies = anomalies\<rparr>;
                hash = sha256_hexdigest lib (json_dumps lib proof_data);
                self2 = self1\<lparr>proof_chain := proof_chain self1 @ [hash]\<rparr>
            in py_bind (raised_in self2 (make_prediction self2 physical)) (\<lambda>self3.
               let twin_state = \<lparr>twin_id = self_twin_id self3,
                                 sync_accuracy = py_round sync_acc 4,
                                 prediction_accuracy = py_round prediction_acc 4,
                                 anomalies_detected = anomalies,
                                 consciousness_level = level,
                                 consciousness_score = py_round score 4,
                                 proof_hash = hash\<rparr>
               in Inr (self3\<lparr>twin_history := twin_history self3 @ [twin_state]\<rparr>,
                       twin_state))))))"

text \<open>
  A sequence of calls by a caller that lets an exception pass: the run ends at the first
  exception, with the engine as the raising call left it.
\<close>
fun sync_all ::
  "library \<Rightarrow> ConsciousDigitalTwin \<Rightarrow> PhysicalState list \<Rightarrow>
   (py_error \<times> ConsciousDigitalTwin) + (ConsciousDigitalTwin \<times> TwinState list)" where
  "sync_all lib self [] = Inr (self, [])"
| "sync_all lib self (physical # rest) =
     py_bind (sync lib self physical) (\<lambda>(self', state).
     py_bind (sync_all lib self' rest) (\<lambda>(self'', states).
     Inr (self'', state # states)))"

text \<open>
  A sequence of calls by a caller that catches the exception of each call and goes on
  with the same engine: the engine after the last call, and the outcome of each call.
\<close>
fun sync_each ::
  "library \<Rightarrow> ConsciousDigitalTwin \<Rightarrow> PhysicalState list \<Rightarrow>
   ConsciousDigitalTwin \<times> (py_error + TwinState) list" where
  "sync_each lib self [] = (self, [])"
| "sync_each lib self (physical # rest) =
     (case sync lib self physical of
        Inl (e, self') \<Rightarrow>
          (case sync_each lib self' rest of (self'', outcomes) \<Rightarrow> (self'', Inl e # outcomes))
      | Inr (self', state) \<Rightarrow>
          (case sync_each lib self' rest of (self'', outcomes) \<Rightarrow> (self'', Inr state # outcomes)))"

subsection \<open>Observations on a call and on a run\<close>

text \<open>The engine as the pipeline sees it: the new snapshot is appended first (line 54).\<close>
definition appended :: "ConsciousDigitalTwin \<Rightarrow> PhysicalState \<Rightarrow> ConsciousDigitalTwin" where
  "appended self physical = self\<lparr>physical_history := physical_history self @ [physical]\<rparr>"

text \<open>The unrounded composite score (the variable \<^verbatim>\<open>score\<close>) of a call.\<close>
definition sync_score :: "ConsciousDigitalTwin \<Rightarrow> PhysicalState \<Rightarrow> py_error + real" where
  "sync_score self physical =
     py_bind (compute_sync_accuracy (appended self physical) physical) (\<lambda>sync_acc.
     composite_score (appended self physical) physical sync_acc
       (evaluate_predictions (appended self physical) physical))"

text \<open>The hashes, and the prediction accuracies, returned by the calls of a run.\<close>
definition proof_hashes ::
  "library \<Rightarrow> ConsciousDigitalTwin \<Rightarrow> PhysicalState list \<Rightarrow> py_error + string list" where
  "proof_hashes lib self snapshots =
     (case sync_all lib self snapshots of
        Inl (e, self') \<Rightarrow> Inl e
      | Inr (self', states) \<Rightarrow> Inr (map proof_hash states))"

definition prediction_accuracies ::
  "library \<Rightarrow> ConsciousDigitalTwin \<Rightarrow> PhysicalState list \<Rightarrow> py_error + real list" where
  "prediction_accuracies lib self snapshots =
     (case sync_all lib self snapshots of
        Inl (e, self') \<Rightarrow> Inl e
      | Inr (self', states) \<Rightarrow> Inr (map prediction_accuracy states))"

text \<open>A result of a call or of a run, with the engine's \<^verbatim>\<open>device_id\<close> replaced.\<close>
definition with_device ::
  "string \<Rightarrow> (py_error \<times> ConsciousDigitalTwin) + (ConsciousDigitalTwin \<times> 'a) \<Rightarrow>
   (py_error \<times> ConsciousDigitalTwin) + (ConsciousDigitalTwin \<times> 'a)" where
  "with_device d r =
     (case r of
        Inl (e, self') \<Rightarrow> Inl (e, self'\<lparr>self_device_id := d\<rparr>)
      | Inr (self', x) \<Rightarrow> Inr (self'\<lparr>self_device_id := d\<rparr>, x))"

subsection \<open>The indicators as the specification words them\<close>

definition shared_keys :: "sensor_dict \<Rightarrow> sensor_dict \<Rightarrow> string set" where
  "shared_keys a b = fst ` set a \<inter> fst ` set b"

text \<open>
  The mean, over the sensor keys present in both the prediction and the snapshot, of
  \<open>1 - min 1 |predicted - actual|\<close>; 0 when they share no key.
\<close>
definition sync_accuracy_spec :: "sensor_dict \<Rightarrow> sensor_dict \<Rightarrow> real" where
  "sync_accuracy_spec predicted actual =
     (if shared_keys predicted actual = {} then 0
      else (\<Sum>key\<in>shared_keys predicted actual.
              1 - min 1 \<bar>the (map_of predicted key) - the (map_of actual key)\<bar>)
           / real (card (shared_keys predicted actual)))"

text \<open>
  The number of sensor keys present in both snapshots whose value moved by more
  than 0.5.
\<close>
definition anomalies_spec :: "sensor_dict \<Rightarrow> sensor_dict \<Rightarrow> nat" where
  "anomalies_spec cur prev =
     card {key \<in> shared_keys cur prev.
             0.5 < \<bar>the (map_of cur key) - the (map_of prev key)\<bar>}"

text \<open>The prediction accuracy for \<open>n\<close> recorded snapshots, the current one counted.\<close>
definition prediction_accuracy_spec :: "nat \<Rightarrow> real" where
  "prediction_accuracy_spec n = (if n < 3 then 0.3 else min 1 (real n / 20))"

subsection \<open>Inputs of moderate magnitude\<close>

text \<open>
  A snapshot whose sensor values are at most \<open>10^150\<close> in magnitude and whose health is at
  least \<open>-10^150\<close>: no square of the engine overflows on such inputs.
\<close>
definition moderate :: real where
  "moderate = 10 ^ 150"

definition moderate_snapshot :: "PhysicalState \<Rightarrow> bool" where
  "moderate_snapshot physical \<longleftrightarrow>
     list_all (\<lambda>(key, v). \<bar>v\<bar> \<le> moderate) (sensors physical) \<and> - moderate \<le> health physical"

subsection \<open>Inputs for running the engine\<close>

text \<open>
  A library to run examples with: the serialiser writes the five fields in the order
  of their keys, the score in millionths; the identity stands for SHA-256.
\<close>
fun digits :: "nat \<Rightarrow> string" where
  "digits n =
     (if n < 10 then [char_of (48 + n)]
      else digits (n div 10) @ [char_of (48 + n mod 10)])"

declare digits.simps [simp del]

definition example_dumps :: "proof_data \<Rightarrow> string" where
  "example_dumps d =
     ''{anomalies: '' @ digits (pd_anomalies d) @
     '', level: '' @ pd_level d @
     '', score: '' @ (if pd_score d < 0 then ''-'' else []) @
                    digits (nat \<bar>\<lfloor>pd_score d * 10 ^ 6\<rfloor>\<bar>) @
     '', timestamp: '' @ pd_timestamp d @
     '', twin_id: '' @ pd_twin_id d @ ''}''"

definition example_library :: library where
  "example_library = \<lparr>json_dumps = example_dumps, sha256_hexdigest = (\<lambda>s. s)\<rparr>"

text \<open>A snapshot with the given sensors, health and timestamp.\<close>
definition snapshot :: "sensor_dict \<Rightarrow> real \<Rightarrow> string \<Rightarrow> PhysicalState" where
  "snapshot s h ts =
     \<lparr>device_id = ''D1'', sensors = s, actuators = [], health = h, timestamp = ts\<rparr>"

text \<open>
  The engine and the returned state after the first call of the specification's example
  scenario: engine \<open>("T1", "D1")\<close>, sensors \<open>{"x": 1.0}\<close>, health 1.
\<close>
definition first_state :: "library \<Rightarrow> TwinState" where
  "first_state lib =
     \<lparr>twin_id = ''T1'', sync_accuracy = 1 / 2, prediction_accuracy = 3 / 10,
      anomalies_detected = 0, consciousness_level = ''C-1 Functional'',
      consciousness_score = 4333 / 10000,
      proof_hash = sha256_hexdigest lib (json_dumps lib
        \<lparr>pd_twin_id = ''T1'', pd_timestamp = ''t1'', pd_score = 433333 / 1000000,
         pd_level = ''C-1 Functional'', pd_anomalies = 0\<rparr>)\<rparr>"

definition after_first :: "library \<Rightarrow> ConsciousDigitalTwin" where
  "after_first lib =
     \<lparr>self_twin_id = ''T1'', self_device_id = ''D1'',
      physical_history = [snapshot [(''x'', 1)] 1 ''t1''],
      twin_history = [first_state lib],
      proof_chain = [proof_hash (first_state lib)],
      predictions = [[(''sensors'', [(''x'', 1)])]]\<rparr>"

section \<open>Basic facts\<close>

subsection \<open>The checked primitives and the loops\<close>

lemma py_bind_Inr [simp]: "py_bind (Inr x) f = f x"
  by (simp add: py_bind_def)

lemma py_bind_Inl [simp]: "py_bind (Inl e) f = Inl e"
  by (simp add: py_bind_def)

lemma py_bind_eq_Inr: "py_bind m f = Inr y \<longleftrightarrow> (\<exists>x. m = Inr x \<and> f x = Inr y)"
  by (cases m) simp_all

lemma py_bind_eq_Inl: "py_bind m f = Inl e \<longleftrightarrow> m = Inl e \<or> (\<exists>x. m = Inr x \<and> f x = Inl e)"
  by (cases m) simp_all

lemma raised_in_simps [simp]:
  "raised_in s (Inl e) = Inl (e, s)"
  "raised_in s (Inr x) = Inr x"
  by (simp_all add: raised_in_def)

lemma raised_in_eq_Inr [simp]: "raised_in s m = Inr x \<longleftrightarrow> m = Inr x"
  by (cases m) simp_all

lemma raised_in_eq_Inl: "raised_in s m = Inl (e, s') \<longleftrightarrow> m = Inl e \<and> s' = s"
  by (cases m) auto

lemma py_getitem_contains: "py_contains d key \<Longrightarrow> py_getitem d key = Inr (the (map_of d key))"
  by (auto simp: py_contains_def py_getitem_def)

lemma py_contains_iff: "py_contains d key \<longleftrightarrow> key \<in> fst ` set d"
  by (simp add: py_contains_def map_of_eq_None_iff)

lemma py_setitem_keys: "fst ` set (py_setitem d key v) = insert key (fst ` set d)"
  by (induction d key v rule: py_setitem.induct) auto

lemma py_setitem_distinct: "distinct (map fst d) \<Longrightarrow> distinct (map fst (py_setitem d key v))"
proof (induction d key v rule: py_setitem.induct)
  case (1 key v)
  then show ?case by simp
next
  case (2 k w d key v)
  then show ?case
    using py_setitem_keys [of d key v] by (auto simp: image_iff)
qed

lemma map_of_py_setitem: "map_of (py_setitem d key v) = (map_of d)(key \<mapsto> v)"
  by (induction d key v rule: py_setitem.induct) (auto simp: fun_eq_iff)

lemma sync_errors_closed:
  "sync_errors items cur =
     Inr (map (\<lambda>(key, pred_val). 1 - min 1 \<bar>pred_val - the (map_of cur key)\<bar>)
            (filter (\<lambda>(key, pred_val). py_contains cur key) items))"
  by (induction items cur rule: sync_errors.induct) (simp_all add: py_getitem_contains)

lemma count_anomalies_closed:
  "set keys \<subseteq> fst ` set cur \<Longrightarrow>
   count_anomalies keys cur prev =
     Inr (length (filter (\<lambda>key. py_contains prev key \<and>
                            0.5 < \<bar>the (map_of cur key) - the (map_of prev key)\<bar>) keys))"
  by (induction keys cur prev rule: count_anomalies.induct)
     (simp_all add: py_getitem_contains py_contains_iff)

lemma predict_sensors_returns: "\<exists>predicted. predict_sensors items history acc = Inr predicted"
  by (induction items history acc rule: predict_sensors.induct)
     (simp_all add: py_index_back_def Let_def)

lemma sum_squares_Inl: "sum_squares vs mean = Inl e \<Longrightarrow> e = OverflowError"
  by (induction vs mean rule: sum_squares.induct)
     (auto simp: py_bind_eq_Inl float_pow2_def split: if_splits)

lemma sum_squares_Inr: "sum_squares vs mean = Inr tot \<Longrightarrow> 0 \<le> tot"
  by (induction vs mean arbitrary: tot rule: sum_squares.induct)
     (auto simp: py_bind_eq_Inr float_pow2_def split: if_splits)


lemma sum_list_unit_bounds:
  "(\<forall>x\<in>set es. 0 \<le> x \<and> x \<le> 1) \<Longrightarrow> 0 \<le> sum_list es \<and> sum_list es \<le> real (length es)"
  by (induction es) auto

lemma py_index_back_last: "xs \<noteq> [] \<Longrightarrow> py_index_back xs (Suc 0) = Inr (last xs)"
  by (cases xs rule: rev_cases) (simp_all add: py_index_back_def)

lemma compute_sync_accuracy_value:
  "compute_sync_accuracy self physical =
     Inr (if predictions self = [] then 0.5
          else let errors = map (\<lambda>(key, pred_val). 1 - min 1 \<bar>pred_val - the (map_of (sensors physical) key)\<bar>)
                                (filter (\<lambda>(key, pred_val). py_contains (sensors physical) key)
                                   (py_get (last (predictions self)) ''sensors'' []))
               in sum_list errors / real (max (length errors) 1))"
  by (simp add: compute_sync_accuracy_def py_index_back_last sync_errors_closed py_div_def Let_def)

lemma compute_sync_accuracy_returns:
  "\<exists>x. compute_sync_accuracy self physical = Inr x \<and> 0 \<le> x \<and> x \<le> 1"
proof (cases "predictions self = []")
  case True
  then have "compute_sync_accuracy self physical = Inr (1 / 2)"
    by (simp add: compute_sync_accuracy_value)
  then show ?thesis by (intro exI [of _ "1 / 2"]) simp
next
  case False
  define errors where "errors = map (\<lambda>(key, pred_val). 1 - min 1 \<bar>pred_val - the (map_of (sensors physical) key)\<bar>)
                                (filter (\<lambda>(key, pred_val). py_contains (sensors physical) key)
                                   (py_get (last (predictions self)) ''sensors'' []))"
  have "\<forall>x\<in>set errors. 0 \<le> x \<and> x \<le> 1"
    by (auto simp: errors_def)
  then have b: "0 \<le> sum_list errors" "sum_list errors \<le> real (length errors)"
    using sum_list_unit_bounds by blast+
  have "real (length errors) \<le> real (max (length errors) 1)"
    by simp
  then have "sum_list errors \<le> real (max (length errors) 1)"
    using b by linarith
  then have "sum_list errors / real (max (length errors) 1) \<le> 1"
    by (simp add: divide_le_eq)
  moreover have "0 \<le> sum_list errors / real (max (length errors) 1)"
    using b by simp
  ultimately show ?thesis
    using False by (simp add: compute_sync_accuracy_value Let_def errors_def)
qed

lemma detect_anomalies_value:
  "detect_anomalies self physical =
     Inr (if length (physical_history self) < 2 then 0
          else length (filter (\<lambda>key. py_contains (sensors (physical_history self ! (length (physical_history self) - 2))) key \<and>
                  0.5 < \<bar>the (map_of (sensors physical) key) -
                         the (map_of (sensors (physical_history self ! (length (physical_history self) - 2))) key)\<bar>)
                (map fst (sensors physical))))"
  by (simp add: detect_anomalies_def py_index_back_def count_anomalies_closed)

lemma sensor_integration_Inl: "sensor_integration physical = Inl e \<Longrightarrow> e = OverflowError"
  by (auto simp: sensor_integration_def Let_def py_div_def py_bind_eq_Inl
           dest: sum_squares_Inl split: if_splits)

lemma sensor_integration_Inr:
  "sensor_integration physical = Inr x \<Longrightarrow> 0 \<le> x \<and> x \<le> 1"
  by (auto simp: sensor_integration_def Let_def py_div_def py_bind_eq_Inr split: if_splits)

lemma sensor_integration_empty: "sensors physical = [] \<Longrightarrow> sensor_integration physical = Inr 0"
  by (simp add: sensor_integration_def)

lemma behavioral_consistency_Inl: "behavioral_consistency self = Inl e \<Longrightarrow> e = OverflowError"
  by (auto simp: behavioral_consistency_def Let_def py_div_def py_bind_eq_Inl py_slice_back_def
           dest: sum_squares_Inl split: if_splits)

lemma behavioral_consistency_Inr:
  "behavioral_consistency self = Inr x \<Longrightarrow> 0 \<le> x \<and> x \<le> 1"
  by (auto simp: behavioral_consistency_def Let_def py_div_def py_bind_eq_Inr
           dest!: sum_squares_Inr split: if_splits)

lemma evaluate_predictions_bounds:
  "0 \<le> evaluate_predictions self physical \<and> evaluate_predictions self physical \<le> 1"
  by (simp add: evaluate_predictions_def)


lemma sync_Inr_cases:
  assumes "sync lib self physical = Inr (self', t)"
  obtains sync_acc anomalies score predicted where
    "compute_sync_accuracy (appended self physical) physical = Inr sync_acc"
    "detect_anomalies (appended self physical) physical = Inr anomalies"
    "sync_score self physical = Inr score"
    "predict_sensors (sensors physical) (physical_history self @ [physical]) [] = Inr predicted"
    "t = \<lparr>twin_id = self_twin_id self,
          sync_accuracy = py_round sync_acc 4,
          prediction_accuracy = py_round (evaluate_predictions (appended self physical) physical) 4,
          anomalies_detected = anomalies,
          consciousness_level = classify score,
          consciousness_score = py_round score 4,
          proof_hash = sha256_hexdigest lib (json_dumps lib
             \<lparr>pd_twin_id = self_twin_id self, pd_timestamp = timestamp physical,
              pd_score = py_round score 6, pd_level = classify score,
              pd_anomalies = anomalies\<rparr>)\<rparr>"
    "self' = self\<lparr>physical_history := physical_history self @ [physical],
                  proof_chain := proof_chain self @ [proof_hash t],
                  predictions := predictions self @ [[(''sensors'', predicted)]],
                  twin_history := twin_history self @ [t]\<rparr>"
  using assms
  by (auto simp: sync_def sync_score_def appended_def Let_def py_bind_eq_Inr make_prediction_def)

lemma round_half_even_of_int [simp]: "round_half_even (of_int k) = k"
  by (simp add: round_half_even_def)

lemma round_half_even_bounds: "\<lfloor>y\<rfloor> \<le> round_half_even y \<and> round_half_even y \<le> \<lceil>y\<rceil>"
proof -
  have "y \<noteq> of_int \<lfloor>y\<rfloor> \<Longrightarrow> \<lfloor>y\<rfloor> + 1 \<le> \<lceil>y\<rceil>"
    by (metis ceiling_altdef order_refl)
  moreover have "y = of_int \<lfloor>y\<rfloor> \<Longrightarrow> round_half_even y = \<lfloor>y\<rfloor>"
    by (simp add: round_half_even_def)
  moreover have "\<lfloor>y\<rfloor> \<le> \<lceil>y\<rceil>"
    by (simp add: floor_le_ceiling)
  ultimately show ?thesis
    by (cases "y = of_int \<lfloor>y\<rfloor>") (auto simp: round_half_even_def Let_def)
qed

lemma py_round_exact: "py_round (of_int k / 10 ^ n) n = of_int k / 10 ^ n"
  by (simp add: py_round_def)

lemma py_round_unit:
  assumes "0 \<le> x" "x \<le> 1"
  shows "0 \<le> py_round x n \<and> py_round x n \<le> 1"
proof -
  let ?y = "x * 10 ^ n"
  have "0 \<le> ?y" "?y \<le> 10 ^ n"
    using assms by simp_all
  then have "0 \<le> \<lfloor>?y\<rfloor>" "\<lceil>?y\<rceil> \<le> 10 ^ n"
    by (simp_all add: ceiling_le_iff)
  then have "0 \<le> round_half_even ?y" "round_half_even ?y \<le> 10 ^ n"
    using round_half_even_bounds [of ?y] by linarith+
  then have "0 \<le> (of_int (round_half_even ?y) :: real)" "(of_int (round_half_even ?y) :: real) \<le> 10 ^ n"
    by (simp_all add: of_int_le_iff [of _ "10 ^ n", where ?'a = real, simplified])
  then show ?thesis
    by (simp add: py_round_def divide_le_eq)
qed

subsection \<open>Runs\<close>

lemma sync_lengths:
  assumes "sync lib self physical = Inr (self', t)"
  shows "length (physical_history self') = Suc (length (physical_history self))"
    and "length (twin_history self') = Suc (length (twin_history self))"
    and "length (predictions self') = Suc (length (predictions self))"
    and "length (proof_chain self') = Suc (length (proof_chain self))"
  using assms by (auto elim!: sync_Inr_cases)

lemma sync_all_lengths:
  "sync_all lib self snapshots = Inr (self', states) \<Longrightarrow>
     length states = length snapshots \<and>
     length (physical_history self') = length (physical_history self) + length snapshots \<and>
     length (twin_history self') = length (twin_history self) + length snapshots \<and>
     length (predictions self') = length (predictions self) + length snapshots \<and>
     length (proof_chain self') = length (proof_chain self) + length snapshots"
proof (induction snapshots arbitrary: self self' states)
  case Nil
  then show ?case by simp
next
  case (Cons physical rest)
  from Cons.prems obtain mid t others where
    step: "sync lib self physical = Inr (mid, t)" and
    tail: "sync_all lib mid rest = Inr (self', others)" and
    states: "states = t # others"
    by (auto simp: py_bind_eq_Inr)
  show ?case
    using Cons.IH [OF tail] sync_lengths [OF step] states by simp
qed

lemma indicators_device:
  "compute_sync_accuracy (self\<lparr>self_device_id := d\<rparr>) p = compute_sync_accuracy self p"
  "evaluate_predictions (self\<lparr>self_device_id := d\<rparr>) p = evaluate_predictions self p"
  "detect_anomalies (self\<lparr>self_device_id := d\<rparr>) p = detect_anomalies self p"
  "behavioral_consistency (self\<lparr>self_device_id := d\<rparr>) = behavioral_consistency self"
  by (simp_all add: compute_sync_accuracy_def evaluate_predictions_def detect_anomalies_def
        behavioral_consistency_def)

lemma with_device_simps [simp]:
  "with_device d (Inl (e, s)) = Inl (e, s\<lparr>self_device_id := d\<rparr>)"
  "with_device d (Inr (s, x)) = Inr (s\<lparr>self_device_id := d\<rparr>, x)"
  by (simp_all add: with_device_def)

lemma with_device_bind:
  "with_device d (py_bind (raised_in s m) f) =
     py_bind (raised_in (s\<lparr>self_device_id := d\<rparr>) m) (\<lambda>x. with_device d (f x))"
  by (cases m) simp_all

lemma device_update_out:
  "physical_history_update f (self_device_id_update g s) = self_device_id_update g (physical_history_update f s)"
  "twin_history_update f2 (self_device_id_update g s) = self_device_id_update g (twin_history_update f2 s)"
  "proof_chain_update f3 (self_device_id_update g s) = self_device_id_update g (proof_chain_update f3 s)"
  "predictions_update f4 (self_device_id_update g s) = self_device_id_update g (predictions_update f4 s)"
  by (cases s, simp)+

lemma with_device_bind_Inr:
  "with_device d (py_bind (raised_in s (py_bind m (\<lambda>x. Inr (g x)))) f) =
     py_bind (raised_in (s\<lparr>self_device_id := d\<rparr>) m) (\<lambda>x. with_device d (f (g x)))"
  by (cases m) simp_all

lemma raised_bind_Inr:
  "py_bind (raised_in s (py_bind m (\<lambda>x. Inr (g x)))) f = py_bind (raised_in s m) (\<lambda>x. f (g x))"
  by (cases m) simp_all

lemma sync_device:
  "sync lib (self\<lparr>self_device_id := d\<rparr>) p = with_device d (sync lib self p)"
  by (simp add: sync_def Let_def with_device_bind device_update_out indicators_device
        composite_score_def indicators_def make_prediction_def raised_bind_Inr with_device_bind_Inr)

lemma sync_all_device:
  "sync_all lib (self\<lparr>self_device_id := d\<rparr>) ps = with_device d (sync_all lib self ps)"
proof (induction ps arbitrary: self)
  case Nil
  then show ?case by simp
next
  case (Cons p ps)
  show ?case
  proof (cases "sync lib self p")
    case (Inl l)
    obtain e s where "l = (e, s)" by (cases l)
    with Inl show ?thesis by (simp add: sync_device)
  next
    case (Inr r)
    obtain mid t where r: "r = (mid, t)" by (cases r)
    show ?thesis
    proof (cases "sync_all lib mid ps")
      case (Inl l)
      obtain e s where "l = (e, s)" by (cases l)
      with Inl \<open>sync lib self p = Inr r\<close> r Cons.IH [of mid] show ?thesis
        by (simp add: sync_device)
    next
      case (Inr r')
      obtain self' states where "r' = (self', states)" by (cases r')
      with Inr \<open>sync lib self p = Inr r\<close> r Cons.IH [of mid] show ?thesis
        by (simp add: sync_device)
    qed
  qed
qed

lemma proof_hashes_device:
  "proof_hashes lib (self\<lparr>self_device_id := d\<rparr>) ps = proof_hashes lib self ps"
proof (cases "sync_all lib self ps")
  case (Inl l)
  obtain e s where "l = (e, s)" by (cases l)
  with Inl show ?thesis by (simp add: proof_hashes_def sync_all_device)
next
  case (Inr r)
  obtain self' states where "r = (self', states)" by (cases r)
  with Inr show ?thesis by (simp add: proof_hashes_def sync_all_device)
qed

lemma init_device: "init tid d2 = (init tid d1)\<lparr>self_device_id := d2\<rparr>"
  by (simp add: init_def)

lemma sync_all_append:
  "sync_all lib self (ps @ qs) =
     py_bind (sync_all lib self ps) (\<lambda>(mid, states).
     py_bind (sync_all lib mid qs) (\<lambda>(self', more). Inr (self', states @ more)))"
proof (induction ps arbitrary: self)
  case Nil
  show ?case by (cases "sync_all lib self qs") auto
next
  case (Cons p ps)
  show ?case
  proof (cases "sync lib self p")
    case (Inl e)
    then show ?thesis by simp
  next
    case (Inr r)
    obtain mid t where r: "r = (mid, t)" by (cases r)
    show ?thesis
      using Inr r Cons.IH [of mid]
      by (cases "sync_all lib mid ps") (auto simp: py_bind_def split: sum.splits)
  qed
qed

lemma proof_hashes_Inr:
  "proof_hashes lib self ps = Inr hashes \<longleftrightarrow>
     (\<exists>self' states. sync_all lib self ps = Inr (self', states) \<and> hashes = map proof_hash states)"
  by (cases "sync_all lib self ps") (auto simp: proof_hashes_def split: prod.splits)

lemma sync_all_proof_chain:
  "sync_all lib self ps = Inr (self', states) \<Longrightarrow>
     proof_chain self' = proof_chain self @ map proof_hash states"
proof (induction ps arbitrary: self self' states)
  case Nil
  then show ?case by simp
next
  case (Cons p ps)
  from Cons.prems obtain mid t others where
    step: "sync lib self p = Inr (mid, t)" and
    tail: "sync_all lib mid ps = Inr (self', others)" and
    states: "states = t # others"
    by (auto simp: py_bind_eq_Inr)
  have "proof_chain mid = proof_chain self @ [proof_hash t]"
    using step by (auto elim!: sync_Inr_cases)
  then show ?case
    using Cons.IH [OF tail] states by simp
qed

lemma proof_hashes_prefix:
  assumes "proof_hashes lib self (ps @ qs) = Inr hashes"
  shows "proof_hashes lib self ps = Inr (take (length ps) hashes)"
proof -
  from assms obtain self' states where
    run: "sync_all lib self (ps @ qs) = Inr (self', states)" and
    hashes: "hashes = map proof_hash states"
    by (auto simp: proof_hashes_Inr)
  from run obtain mid first more where
    first: "sync_all lib self ps = Inr (mid, first)" and
    states: "states = first @ more"
    by (auto simp: sync_all_append py_bind_eq_Inr)
  have "length first = length ps"
    using sync_all_lengths [OF first] by simp
  then have "take (length ps) hashes = map proof_hash first"
    by (simp add: hashes states)
  then show ?thesis
    using first by (auto simp: proof_hashes_Inr)
qed

subsection \<open>What a call can raise, and the range of what it returns\<close>

lemma indicators_Inl: "indicators self p sa pa = Inl e \<Longrightarrow> e = OverflowError"
  by (auto simp: indicators_def py_bind_eq_Inl dest: sensor_integration_Inl behavioral_consistency_Inl)

lemma indicators_Inr:
  "indicators self p sa pa = Inr vs \<Longrightarrow>
     \<exists>integration consistency.
       sensor_integration p = Inr integration \<and> behavioral_consistency self = Inr consistency \<and>
       vs = [sa, min 1 (real (length (twin_history self)) / 10), integration, pa,
             attention_focus p, consistency]"
  by (auto simp: indicators_def py_bind_eq_Inr)

lemma composite_score_Inl: "composite_score self p sa pa = Inl e \<Longrightarrow> e = OverflowError"
  by (auto simp: composite_score_def py_bind_eq_Inl py_div_def
           dest: indicators_Inl dest!: indicators_Inr split: if_splits)

lemma composite_score_Inr:
  "composite_score self p sa pa = Inr score \<Longrightarrow>
     \<exists>integration consistency.
       sensor_integration p = Inr integration \<and> behavioral_consistency self = Inr consistency \<and>
       score = (sa + min 1 (real (length (twin_history self)) / 10) + integration + pa +
                attention_focus p + consistency) / 6"
  by (auto simp: composite_score_def py_bind_eq_Inr py_div_def dest!: indicators_Inr)

lemma composite_score_bounds:
  assumes "composite_score self p sa pa = Inr score"
      and "0 \<le> sa" "sa \<le> 1" "0 \<le> pa" "pa \<le> 1" "0 \<le> health p"
  shows "0 \<le> score \<and> score \<le> 1"
proof -
  from composite_score_Inr [OF assms(1)] obtain integration consistency where
    i: "sensor_integration p = Inr integration" and
    c: "behavioral_consistency self = Inr consistency" and
    score: "score = (sa + min 1 (real (length (twin_history self)) / 10) + integration + pa +
                attention_focus p + consistency) / 6"
    by blast
  define m where "m = min 1 (real (length (twin_history self)) / 10)"
  define a where "a = attention_focus p"
  have ib: "0 \<le> integration" "integration \<le> 1" and cb: "0 \<le> consistency" "consistency \<le> 1"
    using sensor_integration_Inr [OF i] behavioral_consistency_Inr [OF c] by simp_all
  have ab: "0 \<le> a" "a \<le> 1"
    using assms(6) by (simp_all add: a_def attention_focus_def)
  have mb: "0 \<le> m" "m \<le> 1"
    by (simp_all add: m_def)
  have "score = (sa + m + integration + pa + a + consistency) / 6"
    by (simp add: score m_def a_def)
  then show ?thesis
    using ib cb ab mb assms(2-5) by simp
qed

lemma sync_Inl:
  assumes "sync lib self p = Inl (e, s)"
  shows "e = OverflowError \<and> s = appended self p"
proof -
  obtain sa where sa: "compute_sync_accuracy (appended self p) p = Inr sa"
    using compute_sync_accuracy_returns by blast
  obtain an where an: "detect_anomalies (appended self p) p = Inr an"
    by (simp add: detect_anomalies_value)
  obtain predicted where pr: "predict_sensors (sensors p) (physical_history self @ [p]) [] = Inr predicted"
    using predict_sensors_returns by blast
  from assms have
    "raised_in (appended self p)
       (composite_score (appended self p) p sa (evaluate_predictions (appended self p) p)) = Inl (e, s)"
    using sa an pr
    by (auto simp: sync_def Let_def appended_def make_prediction_def py_bind_eq_Inl)
  then have "composite_score (appended self p) p sa (evaluate_predictions (appended self p) p) = Inl e"
    and s: "s = appended self p"
    by (simp_all add: raised_in_eq_Inl)
  then show ?thesis
    using composite_score_Inl by blast
qed

lemma sync_bounds:
  assumes "sync lib self p = Inr (self', t)"
  shows "0 \<le> sync_accuracy t" "sync_accuracy t \<le> 1"
        "0 \<le> prediction_accuracy t" "prediction_accuracy t \<le> 1"
        "0 \<le> health p \<Longrightarrow> 0 \<le> consciousness_score t \<and> consciousness_score t \<le> 1"
proof -
  from assms obtain sa score where
    sa: "compute_sync_accuracy (appended self p) p = Inr sa" and
    score: "sync_score self p = Inr score" and
    t_sa: "sync_accuracy t = py_round sa 4" and
    t_pa: "prediction_accuracy t = py_round (evaluate_predictions (appended self p) p) 4" and
    t_sc: "consciousness_score t = py_round score 4"
    by (auto elim!: sync_Inr_cases)
  have sab: "0 \<le> sa" "sa \<le> 1"
    using compute_sync_accuracy_returns [of "appended self p" p] sa by auto
  note pab = evaluate_predictions_bounds [of "appended self p" p]
  show "0 \<le> sync_accuracy t" "sync_accuracy t \<le> 1"
    using py_round_unit [OF sab] t_sa by simp_all
  show "0 \<le> prediction_accuracy t" "prediction_accuracy t \<le> 1"
    using py_round_unit [of "evaluate_predictions (appended self p) p" 4] pab t_pa by simp_all
  show "0 \<le> consciousness_score t \<and> consciousness_score t \<le> 1" if "0 \<le> health p"
  proof -
    have "composite_score (appended self p) p sa (evaluate_predictions (appended self p) p) = Inr score"
      using score sa by (simp add: sync_score_def)
    then have "0 \<le> score \<and> score \<le> 1"
      using composite_score_bounds [of "appended self p" p sa
          "evaluate_predictions (appended self p) p" score] sab pab that
      by simp
    then show ?thesis
      using py_round_unit [of score 4] t_sc by simp
  qed
qed

subsection \<open>A call returns on inputs of moderate magnitude\<close>

lemma moderate_pos: "0 < moderate"
  by (simp add: moderate_def)

lemma moderate_square: "(2 * moderate) ^ 2 < float_overflow"
  by (simp add: moderate_def float_overflow_def)

lemma sum_squares_returns:
  "\<forall>v \<in> set vs. \<bar>v - mean\<bar> \<le> 2 * moderate \<Longrightarrow> \<exists>squares. sum_squares vs mean = Inr squares"
proof (induction vs)
  case Nil
  then show ?case by simp
next
  case (Cons v vs)
  then have "\<bar>v - mean\<bar> \<le> \<bar>2 * moderate\<bar>"
    using moderate_pos by simp
  then have "(v - mean) ^ 2 \<le> (2 * moderate) ^ 2"
    by (simp only: abs_le_square_iff)
  then have "float_pow2 (v - mean) = Inr ((v - mean) ^ 2)"
    using moderate_square by (simp add: float_pow2_def)
  moreover obtain rest where "sum_squares vs mean = Inr rest"
    using Cons by auto
  ultimately show ?case by simp
qed

lemma mean_moderate:
  assumes "\<forall>v \<in> set vs. \<bar>v\<bar> \<le> b" and "vs \<noteq> []"
  shows "\<bar>sum_list vs / real (length vs)\<bar> \<le> b"
proof -
  have "\<bar>sum_list vs\<bar> \<le> real (length vs) * b"
    using assms(1)
  proof (induction vs)
    case Nil
    then show ?case by simp
  next
    case (Cons v vs)
    then have "\<bar>v\<bar> \<le> b" "\<bar>sum_list vs\<bar> \<le> real (length vs) * b" by simp_all
    then show ?case by (simp add: algebra_simps)
  qed
  moreover have "0 < real (length vs)" using assms(2) by simp
  ultimately show ?thesis
    by (simp add: pos_divide_le_eq mult.commute)
qed

lemma variance_returns:
  assumes "\<forall>v \<in> set vs. \<bar>v\<bar> \<le> moderate" and "vs \<noteq> []"
  shows "\<exists>squares. sum_squares vs (sum_list vs / real (length vs)) = Inr squares"
proof -
  have m: "\<bar>sum_list vs / real (length vs)\<bar> \<le> moderate"
    using assms by (rule mean_moderate)
  have "\<bar>v - sum_list vs / real (length vs)\<bar> \<le> 2 * moderate" if "v \<in> set vs" for v
  proof -
    have "\<bar>v - sum_list vs / real (length vs)\<bar> \<le> \<bar>v\<bar> + \<bar>sum_list vs / real (length vs)\<bar>"
      by (rule abs_triangle_ineq4)
    moreover have "\<bar>v\<bar> \<le> moderate" using assms(1) that by blast
    ultimately show ?thesis using m by linarith
  qed
  then show ?thesis
    by (intro sum_squares_returns) blast
qed

lemma sensor_integration_returns:
  assumes "list_all (\<lambda>(key, v). \<bar>v\<bar> \<le> moderate) (sensors physical)"
  shows "\<exists>x. sensor_integration physical = Inr x"
proof (cases "length (sensors physical) < 2")
  case True
  then have "sensor_integration physical = Inr (if sensors physical = [] then 0 else 3 / 10)"
    by (simp add: sensor_integration_def Let_def)
  then show ?thesis by blast
next
  case False
  let ?vs = "map snd (sensors physical)"
  have "\<forall>v \<in> set ?vs. \<bar>v\<bar> \<le> moderate"
    using assms by (auto simp: list_all_iff)
  moreover have "?vs \<noteq> []" using False by auto
  ultimately obtain squares where
    "sum_squares ?vs (sum_list ?vs / real (length ?vs)) = Inr squares"
    using variance_returns by blast
  then show ?thesis
    using False by (simp add: sensor_integration_def Let_def py_div_def)
qed

lemma behavioral_consistency_returns:
  assumes "\<forall>t \<in> set (twin_history self). \<bar>consciousness_score t\<bar> \<le> moderate"
  shows "\<exists>x. behavioral_consistency self = Inr x"
proof (cases "length (twin_history self) < 3")
  case True
  then have "behavioral_consistency self = Inr (1 / 2)"
    by (simp add: behavioral_consistency_def)
  then show ?thesis by blast
next
  case False
  let ?vs = "map consciousness_score (py_slice_back (twin_history self) 5)"
  have "set (py_slice_back (twin_history self) 5) \<subseteq> set (twin_history self)"
    by (simp add: py_slice_back_def set_drop_subset)
  then have "\<forall>v \<in> set ?vs. \<bar>v\<bar> \<le> moderate"
    using assms by auto
  moreover have ne: "?vs \<noteq> []" using False by (simp add: py_slice_back_def)
  ultimately obtain squares where
    "sum_squares ?vs (sum_list ?vs / real (length ?vs)) = Inr squares"
    using variance_returns by blast
  then show ?thesis
    using False ne by (simp add: behavioral_consistency_def Let_def py_div_def)
qed

lemma sync_returns:
  assumes "moderate_snapshot physical"
      and "\<forall>t \<in> set (twin_history self). \<bar>consciousness_score t\<bar> \<le> moderate"
  shows "\<exists>self' t. sync lib self physical = Inr (self', t)"
proof -
  obtain sa where sa: "compute_sync_accuracy (appended self physical) physical = Inr sa"
    using compute_sync_accuracy_returns by blast
  obtain an where an: "detect_anomalies (appended self physical) physical = Inr an"
    by (simp add: detect_anomalies_value)
  obtain predicted where
    pr: "predict_sensors (sensors physical) (physical_history self @ [physical]) [] = Inr predicted"
    using predict_sensors_returns by blast
  obtain integration where i: "sensor_integration physical = Inr integration"
    using sensor_integration_returns assms(1) by (auto simp: moderate_snapshot_def)
  have "twin_history (appended self physical) = twin_history self"
    by (simp add: appended_def)
  then obtain consistency where c: "behavioral_consistency (appended self physical) = Inr consistency"
    using behavioral_consistency_returns [of "appended self physical"] assms(2) by auto
  have "composite_score (appended self physical) physical sa
          (evaluate_predictions (appended self physical) physical) =
        Inr ((sa + min 1 (real (length (twin_history (appended self physical))) / 10) +
              integration + evaluate_predictions (appended self physical) physical +
              attention_focus physical + consistency) / 6)"
    by (simp add: composite_score_def indicators_def i c py_div_def)
  then have "\<exists>score. composite_score (appended self physical) physical sa
          (evaluate_predictions (appended self physical) physical) = Inr score"
    by blast
  then show ?thesis
    using sa an pr
    by (auto simp: sync_def Let_def appended_def make_prediction_def)
qed

lemma py_round_magnitude: "\<bar>py_round x n\<bar> \<le> \<bar>x\<bar> + 1"
proof -
  let ?y = "x * 10 ^ n"
  have "real_of_int \<lfloor>?y\<rfloor> \<le> real_of_int (round_half_even ?y)"
    "real_of_int (round_half_even ?y) \<le> real_of_int \<lceil>?y\<rceil>"
    using round_half_even_bounds [of ?y] by simp_all
  moreover have "?y - 1 < real_of_int \<lfloor>?y\<rfloor>" "real_of_int \<lceil>?y\<rceil> < ?y + 1"
    by linarith+
  ultimately have "\<bar>real_of_int (round_half_even ?y)\<bar> \<le> \<bar>?y\<bar> + 1"
    by linarith
  then have "\<bar>real_of_int (round_half_even ?y)\<bar> / 10 ^ n \<le> (\<bar>?y\<bar> + 1) / 10 ^ n"
    by (simp add: divide_right_mono)
  also have "\<dots> = \<bar>x\<bar> + 1 / 10 ^ n"
    by (simp add: add_divide_distrib abs_mult)
  also have "\<dots> \<le> \<bar>x\<bar> + 1"
    by (simp add: divide_le_eq_1)
  finally show ?thesis
    by (simp add: py_round_def)
qed

lemma sync_score_moderate:
  assumes "sync lib self physical = Inr (self', t)" and "- moderate \<le> health physical"
  shows "\<bar>consciousness_score t\<bar> \<le> moderate"
proof -
  from assms(1) obtain sa score where
    sa: "compute_sync_accuracy (appended self physical) physical = Inr sa" and
    score: "sync_score self physical = Inr score" and
    t: "consciousness_score t = py_round score 4"
    by (auto elim!: sync_Inr_cases)
  have sab: "0 \<le> sa" "sa \<le> 1"
    using compute_sync_accuracy_returns [of "appended self physical" physical] sa by auto
  note pab = evaluate_predictions_bounds [of "appended self physical" physical]
  have "composite_score (appended self physical) physical sa
          (evaluate_predictions (appended self physical) physical) = Inr score"
    using score sa by (simp add: sync_score_def)
  from composite_score_Inr [OF this] obtain integration consistency where
    i: "sensor_integration physical = Inr integration" and
    c: "behavioral_consistency (appended self physical) = Inr consistency" and
    s: "score = (sa + min 1 (real (length (twin_history (appended self physical))) / 10) +
                 integration + evaluate_predictions (appended self physical) physical +
                 attention_focus physical + consistency) / 6"
    by blast
  define m where "m = min 1 (real (length (twin_history (appended self physical))) / 10)"
  define a where "a = attention_focus physical"
  define e where "e = evaluate_predictions (appended self physical) physical"
  have ib: "0 \<le> integration" "integration \<le> 1" and cb: "0 \<le> consistency" "consistency \<le> 1"
    using sensor_integration_Inr [OF i] behavioral_consistency_Inr [OF c] by simp_all
  have mb: "0 \<le> m" "m \<le> 1" by (simp_all add: m_def)
  have eb: "0 \<le> e" "e \<le> 1" using pab by (simp_all add: e_def)
  have ab: "- moderate \<le> a" "a \<le> 1"
    using assms(2) by (simp_all add: a_def attention_focus_def moderate_def)
  have big: "6 \<le> moderate" by (simp add: moderate_def)
  have "score = (sa + m + integration + e + a + consistency) / 6"
    by (simp add: s m_def a_def e_def)
  then have "\<bar>score\<bar> + 1 \<le> moderate"
    using sab ib cb mb eb ab big by (simp add: abs_le_iff)
  then show ?thesis
    using py_round_magnitude [of score 4] t by linarith
qed

lemma sync_all_returns:
  assumes "list_all moderate_snapshot snapshots"
      and "\<forall>t \<in> set (twin_history self). \<bar>consciousness_score t\<bar> \<le> moderate"
  shows "\<exists>self' states. sync_all lib self snapshots = Inr (self', states)"
  using assms
proof (induction snapshots arbitrary: self)
  case Nil
  then show ?case by simp
next
  case (Cons p ps)
  then have mp: "moderate_snapshot p" and rest: "list_all moderate_snapshot ps" by simp_all
  obtain mid t where step: "sync lib self p = Inr (mid, t)"
    using sync_returns [OF mp Cons.prems(2)] by blast
  have "twin_history mid = twin_history self @ [t]"
    using step by (auto elim!: sync_Inr_cases)
  moreover have "\<bar>consciousness_score t\<bar> \<le> moderate"
    using sync_score_moderate [OF step] mp by (simp add: moderate_snapshot_def)
  ultimately have "\<forall>t \<in> set (twin_history mid). \<bar>consciousness_score t\<bar> \<le> moderate"
    using Cons.prems(2) by auto
  from Cons.IH [OF rest this] obtain self' states where
    "sync_all lib mid ps = Inr (self', states)" by blast
  with step show ?case by simp
qed

lemma sync_all_fresh_returns:
  "list_all moderate_snapshot snapshots \<Longrightarrow>
     \<exists>self' states. sync_all lib (init tid did) snapshots = Inr (self', states)"
  by (rule sync_all_returns) (simp_all add: init_def)

subsection \<open>Running the engine on concrete inputs\<close>

lemmas sync_defs = sync_def init_def compute_sync_accuracy_def evaluate_predictions_def detect_anomalies_def
     composite_score_def indicators_def sensor_integration_def behavioral_consistency_def attention_focus_def
     make_prediction_def py_div_def py_round_def round_half_even_def classify_def Let_def py_index_back_def py_get_def py_contains_def py_getitem_def py_slice_back_def
     snapshot_def raised_in_def

lemma first_call:
  "sync lib (init ''T1'' ''D1'') (snapshot [(''x'', 1)] 1 ''t1'') = Inr (after_first lib, first_state lib)"
  by (simp add: sync_defs after_first_def first_state_def)

lemmas run_defs = sync_defs after_first_def first_state_def sync_score_def appended_def

lemma example_run_hashes:
  "\<exists>h1 h2. proof_hashes lib (init ''T1'' ''D1'')
       ([snapshot [(''x'', 1)] 1 ''t1''] @ [snapshot [(''x'', 1.6)] 1 ''t2'']) = Inr [h1, h2]"
  by (simp add: proof_hashes_def sync_defs)

lemma three_calls_return:
  "\<exists>self' states. sync_all lib (init ''T1'' ''D1'')
      [snapshot [(''x'', 1)] 1 ''t1'', snapshot [(''x'', 1)] 1 ''t2'', snapshot [(''x'', 1)] 1 ''t3'']
     = Inr (self', states)"
  by (simp add: sync_defs)

section \<open>The claims\<close>

subsection \<open>C1: the range of the returned scores\<close>

text \<open>
  C1 states that every returned \<^verbatim>\<open>TwinState\<close> has \<^verbatim>\<open>consciousness_score\<close>,
  \<^verbatim>\<open>sync_accuracy\<close> and \<^verbatim>\<open>prediction_accuracy\<close> in \<open>[0, 1]\<close>, for any health. The two
  accuracies are (\<open>sync_bounds\<close>), and so is the score when \<open>0 \<le> health\<close>. But
  \<^verbatim>\<open>_attention_focus\<close> is \<^verbatim>\<open>min(1.0, health)\<close>, clamped from above only: the first call of
  a fresh engine with no sensors and health \<open>-2\<close> returns the score \<open>-0.1167\<close>.
\<close>
theorem negative_health_score_below_zero:
  "\<exists>self' t. sync lib (init ''T1'' ''D1'') (snapshot [] (- 2) ''t1'') = Inr (self', t) \<and>
     consciousness_score t = - (1167 / 10000) \<and> consciousness_score t < 0"
  by (simp add: sync_defs)

subsection \<open>C2: the classification label\<close>

lemma classify_labels:
  "classify score = ''C-4 Transcendent'' \<longleftrightarrow> 0.85 \<le> score"
  "classify score = ''C-3 Autonomous'' \<longleftrightarrow> 0.70 \<le> score \<and> score < 0.85"
  "classify score = ''C-2 Emerging'' \<longleftrightarrow> 0.50 \<le> score \<and> score < 0.70"
  "classify score = ''C-1 Functional'' \<longleftrightarrow> 0.20 \<le> score \<and> score < 0.50"
  "classify score = ''C-0 Reactive'' \<longleftrightarrow> score < 0.20"
  by (auto simp: classify_def)

text \<open>
  C2. The label a call of \<^verbatim>\<open>sync\<close> returns is a function of the composite score of
  that call, \<open>classify\<close>, with five tiers that exclude one another and whose lower
  bounds are inclusive: "C-4 Transcendent" exactly from 0.85, "C-3 Autonomous" exactly on
  \<open>[0.70, 0.85)\<close>, "C-2 Emerging" exactly on \<open>[0.50, 0.70)\<close>, "C-1 Functional" exactly on
  \<open>[0.20, 0.50)\<close>, "C-0 Reactive" exactly below 0.20. A score equal to a threshold is in
  the higher tier.
\<close>
theorem classification_tiers:
  assumes "sync lib self physical = Inr (self', t)"
  shows "\<exists>score. sync_score self physical = Inr score \<and>
           consciousness_level t = classify score \<and>
           (consciousness_level t = ''C-4 Transcendent'' \<longleftrightarrow> 0.85 \<le> score) \<and>
           (consciousness_level t = ''C-3 Autonomous'' \<longleftrightarrow> 0.70 \<le> score \<and> score < 0.85) \<and>
           (consciousness_level t = ''C-2 Emerging'' \<longleftrightarrow> 0.50 \<le> score \<and> score < 0.70) \<and>
           (consciousness_level t = ''C-1 Functional'' \<longleftrightarrow> 0.20 \<le> score \<and> score < 0.50) \<and>
           (consciousness_level t = ''C-0 Reactive'' \<longleftrightarrow> score < 0.20)"
proof -
  from assms obtain score where
    score: "sync_score self physical = Inr score" and
    level: "consciousness_level t = classify score"
    by (auto elim!: sync_Inr_cases)
  show ?thesis
    by (rule exI [of _ score]) (simp only: score level classify_labels simp_thms)
qed

theorem classification_tiers_witness:
  "\<forall>lib. \<exists>self' t.
     sync lib (init ''T1'' ''D1'') (snapshot [(''x'', 1)] 1 ''t1'') = Inr (after_first lib, first_state lib) \<and>
     sync lib (after_first lib) (snapshot [(''x'', 1)] 0.8 ''t2'') = Inr (self', t) \<and>
     sync_score (after_first lib) (snapshot [(''x'', 1)] 0.8 ''t2'') = Inr 0.5 \<and>
     consciousness_level t = ''C-2 Emerging''"
proof
  fix lib
  let ?p = "snapshot [(''x'', 1)] 0.8 ''t2''"
  have "\<exists>self' t. sync lib (after_first lib) ?p = Inr (self', t)"
    by (simp add: run_defs)
  then obtain self' t where call: "sync lib (after_first lib) ?p = Inr (self', t)"
    by blast
  have score: "sync_score (after_first lib) ?p = Inr 0.5"
    by (simp add: run_defs)
  from classification_tiers [OF call] obtain s where
    s: "sync_score (after_first lib) ?p = Inr s" and
    tier: "(consciousness_level t = ''C-2 Emerging'') = (0.50 \<le> s \<and> s < 0.70)"
    by blast
  from s score have "s = 0.5" by simp
  with tier have level: "consciousness_level t = ''C-2 Emerging''" by simp
  show "\<exists>self' t.
     sync lib (init ''T1'' ''D1'') (snapshot [(''x'', 1)] 1 ''t1'') = Inr (after_first lib, first_state lib) \<and>
     sync lib (after_first lib) ?p = Inr (self', t) \<and>
     sync_score (after_first lib) ?p = Inr 0.5 \<and>
     consciousness_level t = ''C-2 Emerging''"
    using first_call call score level by (intro exI conjI)
qed

subsection \<open>C3: the four histories after a sequence of calls\<close>

text \<open>
  C3 states that after every sequence of \<open>n\<close> calls of \<^verbatim>\<open>sync\<close> on a freshly constructed
  engine the four histories \<^verbatim>\<open>physical_history\<close>, \<^verbatim>\<open>twin_history\<close>, \<^verbatim>\<open>predictions\<close> and
  \<^verbatim>\<open>proof_chain\<close> all have length \<open>n\<close>. That holds of the runs in which every call
  returned (\<open>sync_all_lengths\<close>), and every call returns on snapshots of moderate
  magnitude (\<open>sync_all_fresh_returns\<close>). But a call that raises has already appended its
  snapshot (\<open>sync_Inl\<close>), and the engine stays in use: when the second of three calls
  raises OverflowError and the caller goes on, the third call completes and leaves the
  lengths 3, 2, 2 and 2.
\<close>
theorem histories_unequal_after_caught_exception:
  "\<exists>self' first third.
     sync_each lib (init ''T1'' ''D1'')
       [snapshot [(''x'', 1)] 1 ''t1'',
        snapshot [(''a'', 10 ^ 200), (''b'', 3 * 10 ^ 200)] 1 ''t2'',
        snapshot [(''x'', 1)] 1 ''t3'']
       = (self', [Inr first, Inl OverflowError, Inr third]) \<and>
     length (physical_history self') = 3 \<and>
     length (twin_history self') = 2 \<and>
     length (predictions self') = 2 \<and>
     length (proof_chain self') = 2"
  by (simp add: sync_defs float_pow2_def float_overflow_def)

subsection \<open>C4: the sequence of proof hashes is reproducible\<close>

text \<open>
  C4. Two engines constructed with the same \<^verbatim>\<open>twin_id\<close> and fed the same sequence of
  snapshots return the same sequence of proof hashes, or raise the same exception (the
  \<^verbatim>\<open>device_id\<close> has no part in it); the hashes of the first calls of a run do not
  depend on the snapshots that follow; and the chain the engine holds is the sequence of
  the returned hashes. The serialiser and the digest are any two functions.
\<close>
theorem proof_hashes_deterministic:
  "proof_hashes lib (init tid did1) snapshots = proof_hashes lib (init tid did2) snapshots \<and>
   (proof_hashes lib (init tid did1) (snapshots @ later) = Inr hashes \<longrightarrow>
      proof_hashes lib (init tid did2) snapshots = Inr (take (length snapshots) hashes)) \<and>
   (sync_all lib (init tid did1) snapshots = Inr (self', states) \<longrightarrow>
      proof_chain self' = map proof_hash states)"
proof (intro conjI impI)
  show same: "proof_hashes lib (init tid did1) snapshots = proof_hashes lib (init tid did2) snapshots"
    by (simp add: init_device [of tid did2 did1] proof_hashes_device)
  show "proof_hashes lib (init tid did2) snapshots = Inr (take (length snapshots) hashes)"
    if "proof_hashes lib (init tid did1) (snapshots @ later) = Inr hashes"
    using proof_hashes_prefix [OF that] same by simp
  show "proof_chain self' = map proof_hash states"
    if "sync_all lib (init tid did1) snapshots = Inr (self', states)"
    using sync_all_proof_chain [OF that] by (simp add: init_def)
qed

theorem proof_hashes_deterministic_witness:
  "\<forall>lib. \<exists>h1 h2.
     proof_hashes lib (init ''T1'' ''D1'')
       ([snapshot [(''x'', 1)] 1 ''t1''] @ [snapshot [(''x'', 1.6)] 1 ''t2'']) = Inr [h1, h2] \<and>
     proof_hashes lib (init ''T1'' ''D2'') [snapshot [(''x'', 1)] 1 ''t1''] = Inr [h1] \<and>
     proof_hashes lib (init ''T1'' ''D2'')
       ([snapshot [(''x'', 1)] 1 ''t1''] @ [snapshot [(''x'', 1.6)] 1 ''t2'']) = Inr [h1, h2]"
proof
  fix lib
  let ?a = "[snapshot [(''x'', 1)] 1 ''t1'']" and ?b = "[snapshot [(''x'', 1.6)] 1 ''t2'']"
  obtain h1 h2 where run: "proof_hashes lib (init ''T1'' ''D1'') (?a @ ?b) = Inr [h1, h2]"
    using example_run_hashes by blast
  note det = proof_hashes_deterministic [of lib "''T1''" "''D1''" _ "''D2''"]
  have "proof_hashes lib (init ''T1'' ''D2'') ?a = Inr (take (length ?a) [h1, h2])"
    using det [of ?a ?b "[h1, h2]"] run by blast
  then have one: "proof_hashes lib (init ''T1'' ''D2'') ?a = Inr [h1]"
    by simp
  have two: "proof_hashes lib (init ''T1'' ''D2'') (?a @ ?b) = Inr [h1, h2]"
    using det [of "?a @ ?b"] run by metis
  show "\<exists>h1 h2.
     proof_hashes lib (init ''T1'' ''D1'') (?a @ ?b) = Inr [h1, h2] \<and>
     proof_hashes lib (init ''T1'' ''D2'') ?a = Inr [h1] \<and>
     proof_hashes lib (init ''T1'' ''D2'') (?a @ ?b) = Inr [h1, h2]"
    using run one two by (intro exI conjI)
qed

subsection \<open>C5: the prediction accuracy by the number of recorded snapshots\<close>

lemma prediction_accuracy_spec_rounded:
  "py_round (prediction_accuracy_spec n) 4 = prediction_accuracy_spec n"
proof -
  have "\<exists>k. prediction_accuracy_spec n = of_int k / 10 ^ 4"
  proof (cases "n < 3")
    case True
    then have "prediction_accuracy_spec n = of_int 3000 / 10 ^ 4"
      by (simp add: prediction_accuracy_spec_def)
    then show ?thesis by blast
  next
    case False
    show ?thesis
    proof (cases "n < 20")
      case True
      with False have "prediction_accuracy_spec n = of_int (500 * int n) / 10 ^ 4"
        by (simp add: prediction_accuracy_spec_def min_def)
      then show ?thesis by blast
    next
      case False
      then have "prediction_accuracy_spec n = of_int 10000 / 10 ^ 4"
        by (simp add: prediction_accuracy_spec_def min_def)
      then show ?thesis by blast
    qed
  qed
  then obtain k where "prediction_accuracy_spec n = of_int k / 10 ^ 4" by blast
  then show ?thesis by (simp only: py_round_exact)
qed

lemma evaluate_predictions_spec:
  "evaluate_predictions (appended self p) p = prediction_accuracy_spec (length (physical_history self) + 1)"
  by (simp add: evaluate_predictions_def prediction_accuracy_spec_def appended_def)

lemma sync_prediction_accuracy:
  assumes "sync lib self p = Inr (self', t)"
  shows "prediction_accuracy t = prediction_accuracy_spec (length (physical_history self) + 1)"
proof -
  from assms have "prediction_accuracy t = py_round (evaluate_predictions (appended self p) p) 4"
    by (auto elim!: sync_Inr_cases)
  then show ?thesis
    by (simp only: evaluate_predictions_spec prediction_accuracy_spec_rounded)
qed

lemma sync_all_prediction_accuracy:
  "sync_all lib self ps = Inr (self', states) \<Longrightarrow> i < length ps \<Longrightarrow>
     prediction_accuracy (states ! i) = prediction_accuracy_spec (length (physical_history self) + i + 1)"
proof (induction ps arbitrary: self self' states i)
  case Nil
  then show ?case by simp
next
  case (Cons p ps)
  from Cons.prems(1) obtain mid t others where
    step: "sync lib self p = Inr (mid, t)" and
    tail: "sync_all lib mid ps = Inr (self', others)" and
    states: "states = t # others"
    by (auto simp: py_bind_eq_Inr)
  show ?case
  proof (cases i)
    case 0
    then show ?thesis
      using sync_prediction_accuracy [OF step] states by simp
  next
    case (Suc k)
    then have "k < length ps" using Cons.prems(2) by simp
    from Cons.IH [OF tail this] sync_lengths(1) [OF step] Suc states
    show ?thesis by simp
  qed
qed

lemma prediction_accuracy_spec_le:
  assumes "m < n"
  shows "prediction_accuracy_spec m \<le> prediction_accuracy_spec n \<longleftrightarrow> \<not> (m < 3 \<and> 3 \<le> n \<and> n < 6)"
proof (cases "m < 3")
  case True
  show ?thesis
  proof (cases "n < 3")
    case True
    with \<open>m < 3\<close> show ?thesis by (simp add: prediction_accuracy_spec_def)
  next
    case False
    have "(3 / 10 \<le> min 1 (real n / 20)) = (6 \<le> n)"
      by (auto simp: min_def)
    with True False show ?thesis
      by (auto simp: prediction_accuracy_spec_def)
  qed
next
  case False
  with assms have "\<not> n < 3" by simp
  have "real m / 20 \<le> real n / 20" using assms by simp
  then have "min 1 (real m / 20) \<le> min 1 (real n / 20)"
    by (simp add: min_def)
  with False \<open>\<not> n < 3\<close> show ?thesis
    by (simp add: prediction_accuracy_spec_def)
qed

text \<open>
  C5 states that the prediction accuracy is 0.3 below 3 recorded snapshots and
  \<open>min 1 (n / 20)\<close> from 3 on, and that a later call never returns less than an earlier
  one. The values are as stated, but the order fails where the two formulas meet: the
  third call of a fresh engine returns \<open>3 / 20\<close>, the second returned \<open>3 / 10\<close>.
\<close>
theorem prediction_accuracy_drops_counterexample:
  "prediction_accuracies example_library (init ''T1'' ''D1'')
     [snapshot [(''x'', 1)] 1 ''t1'', snapshot [(''x'', 1)] 1 ''t2'', snapshot [(''x'', 1)] 1 ''t3'']
     = Inr [3 / 10, 3 / 10, 3 / 20] \<and>
   \<not> (3 / 10 :: real) \<le> 3 / 20"
  by (simp add: prediction_accuracies_def sync_defs example_library_def)

text \<open>
  C5, amended. In a run of calls on one engine, the call that makes \<open>n\<close> recorded
  snapshots returns the prediction accuracy 0.3 when \<open>n < 3\<close> and \<open>min 1 (n / 20)\<close>
  otherwise; of two calls, the later one returns at least what the earlier one returned
  except when the earlier one has fewer than 3 recorded snapshots and the later one 3, 4
  or 5.
\<close>
theorem prediction_accuracy_by_history_length:
  assumes "sync_all lib self snapshots = Inr (self', states)" and "i < j" and "j < length snapshots"
  shows "prediction_accuracy (states ! i) =
           (if length (physical_history self) + i + 1 < 3 then 0.3
            else min 1 (real (length (physical_history self) + i + 1) / 20)) \<and>
         (prediction_accuracy (states ! i) \<le> prediction_accuracy (states ! j) \<longleftrightarrow>
            \<not> (length (physical_history self) + i + 1 < 3 \<and>
               3 \<le> length (physical_history self) + j + 1 \<and>
               length (physical_history self) + j + 1 < 6))"
proof -
  have i: "i < length snapshots" using assms(2,3) by simp
  have pi: "prediction_accuracy (states ! i) =
      prediction_accuracy_spec (length (physical_history self) + i + 1)"
    by (rule sync_all_prediction_accuracy [OF assms(1) i])
  have pj: "prediction_accuracy (states ! j) =
      prediction_accuracy_spec (length (physical_history self) + j + 1)"
    by (rule sync_all_prediction_accuracy [OF assms(1,3)])
  have lt: "length (physical_history self) + i + 1 < length (physical_history self) + j + 1"
    using assms(2) by simp
  show ?thesis
    unfolding pi pj prediction_accuracy_spec_le [OF lt]
    by (simp add: prediction_accuracy_spec_def)
qed

theorem prediction_accuracy_by_history_length_witness:
  "\<forall>lib. \<exists>self' states.
     sync_all lib (init ''T1'' ''D1'')
       [snapshot [(''x'', 1)] 1 ''t1'', snapshot [(''x'', 1)] 1 ''t2'', snapshot [(''x'', 1)] 1 ''t3'']
       = Inr (self', states) \<and>
     prediction_accuracy (states ! 0) = 3 / 10 \<and>
     prediction_accuracy (states ! 0) \<le> prediction_accuracy (states ! 1) \<and>
     \<not> prediction_accuracy (states ! 1) \<le> prediction_accuracy (states ! 2)"
proof
  fix lib
  let ?run = "[snapshot [(''x'', 1)] 1 ''t1'', snapshot [(''x'', 1)] 1 ''t2'', snapshot [(''x'', 1)] 1 ''t3'']"
  obtain self' states where run: "sync_all lib (init ''T1'' ''D1'') ?run = Inr (self', states)"
    using three_calls_return by blast
  have e: "length (physical_history (init ''T1'' ''D1'')) = 0"
    by (simp add: init_def)
  have a: "prediction_accuracy (states ! 0) = 3 / 10"
    "prediction_accuracy (states ! 0) \<le> prediction_accuracy (states ! 1)"
    using prediction_accuracy_by_history_length [OF run, of 0 1] e by simp_all
  have b: "\<not> prediction_accuracy (states ! 1) \<le> prediction_accuracy (states ! 2)"
    using prediction_accuracy_by_history_length [OF run, of 1 2] e by simp
  show "\<exists>self' states.
     sync_all lib (init ''T1'' ''D1'') ?run = Inr (self', states) \<and>
     prediction_accuracy (states ! 0) = 3 / 10 \<and>
     prediction_accuracy (states ! 0) \<le> prediction_accuracy (states ! 1) \<and>
     \<not> prediction_accuracy (states ! 1) \<le> prediction_accuracy (states ! 2)"
    using run a b by (intro exI conjI)
qed

subsection \<open>C6: the sync accuracy\<close>

lemma sum_list_shared:
  assumes "distinct (map fst items)"
  shows "sum_list (map (\<lambda>(k, v). g k v) (filter (\<lambda>(k, v). k \<in> A) items)) =
           (\<Sum>k \<in> fst ` set items \<inter> A. g k (the (map_of items k)))"
    and "length (filter (\<lambda>(k, v). k \<in> A) items) = card (fst ` set items \<inter> A)"
proof -
  let ?sel = "filter (\<lambda>(k, v). k \<in> A) items"
  have d: "distinct (map fst ?sel)"
    using assms by (rule distinct_map_filter)
  have s: "set (map fst ?sel) = fst ` set items \<inter> A"
    by (auto simp: image_iff)
  have "(case x of (k, v) \<Rightarrow> g k v) = ((\<lambda>k. g k (the (map_of items k))) \<circ> fst) x"
    if "x \<in> set ?sel" for x
  proof -
    obtain k v where x: "x = (k, v)" by (cases x)
    with that have "(k, v) \<in> set items" by simp
    then have "map_of items k = Some v"
      by (rule map_of_is_SomeI [OF assms])
    then show ?thesis by (simp add: x)
  qed
  then have "map (\<lambda>(k, v). g k v) ?sel = map ((\<lambda>k. g k (the (map_of items k))) \<circ> fst) ?sel"
    by (rule map_cong [OF refl])
  then have "map (\<lambda>(k, v). g k v) ?sel = map (\<lambda>k. g k (the (map_of items k))) (map fst ?sel)"
    by (simp only: map_map)
  then have "sum_list (map (\<lambda>(k, v). g k v) ?sel) =
      sum_list (map (\<lambda>k. g k (the (map_of items k))) (map fst ?sel))"
    by (rule arg_cong)
  also have "\<dots> = (\<Sum>k \<in> set (map fst ?sel). g k (the (map_of items k)))"
    using d by (rule sum_list_distinct_conv_sum_set)
  finally show "sum_list (map (\<lambda>(k, v). g k v) ?sel) =
           (\<Sum>k \<in> fst ` set items \<inter> A. g k (the (map_of items k)))"
    by (simp only: s)
  have "length ?sel = length (map fst ?sel)" by simp
  also have "\<dots> = card (set (map fst ?sel))"
    using d by (simp only: distinct_card)
  finally show "length ?sel = card (fst ` set items \<inter> A)"
    by (simp only: s)
qed

lemma sync_errors_spec:
  assumes "distinct (map fst predicted)"
  shows "sync_errors predicted actual = Inr errors \<Longrightarrow>
           sum_list errors / real (max (length errors) 1) = sync_accuracy_spec predicted actual"
proof -
  assume "sync_errors predicted actual = Inr errors"
  then have e: "errors = map (\<lambda>(key, pred_val). 1 - min 1 \<bar>pred_val - the (map_of actual key)\<bar>)
            (filter (\<lambda>(key, pred_val). key \<in> fst ` set actual) predicted)"
    by (simp add: sync_errors_closed py_contains_iff)
  have sum: "sum_list errors = (\<Sum>key \<in> shared_keys predicted actual.
      1 - min 1 \<bar>the (map_of predicted key) - the (map_of actual key)\<bar>)"
    unfolding e shared_keys_def
    by (rule sum_list_shared(1) [OF assms, of "\<lambda>k v. 1 - min 1 \<bar>v - the (map_of actual k)\<bar>"])
  have len: "length errors = card (shared_keys predicted actual)"
    unfolding e shared_keys_def by (simp add: sum_list_shared(2) [OF assms])
  have fin: "finite (shared_keys predicted actual)"
    by (simp add: shared_keys_def)
  show ?thesis
  proof (cases "shared_keys predicted actual = {}")
    case True
    then show ?thesis by (simp add: sum len sync_accuracy_spec_def)
  next
    case False
    then have "0 < card (shared_keys predicted actual)"
      using fin by (simp add: card_gt_0_iff)
    then have "max (card (shared_keys predicted actual)) 1 = card (shared_keys predicted actual)"
      by simp
    then show ?thesis
      using False by (simp add: sum len sync_accuracy_spec_def)
  qed
qed

lemma compute_sync_accuracy_spec:
  assumes "predictions self \<noteq> []"
      and "distinct (map fst (py_get (last (predictions self)) ''sensors'' []))"
  shows "compute_sync_accuracy (appended self physical) physical =
           Inr (sync_accuracy_spec (py_get (last (predictions self)) ''sensors'' []) (sensors physical))"
proof -
  let ?pred = "py_get (last (predictions self)) ''sensors'' []"
  obtain errors where e: "sync_errors ?pred (sensors physical) = Inr errors"
    by (simp add: sync_errors_closed)
  have "compute_sync_accuracy (appended self physical) physical =
      Inr (sum_list errors / real (max (length errors) 1))"
    using assms(1) e
    by (simp add: compute_sync_accuracy_def appended_def py_index_back_last py_div_def)
  then show ?thesis
    by (simp only: sync_errors_spec [OF assms(2) e])
qed

lemma py_round_simple [simp]: "py_round 0 n = 0" "py_round (1 / 2) 4 = 1 / 2"
  by (simp_all add: py_round_def round_half_even_def)

text \<open>The prediction a call stores is a well-formed dictionary.\<close>

lemma predict_sensors_distinct:
  "distinct (map fst acc) \<Longrightarrow> predict_sensors items history acc = Inr predicted \<Longrightarrow>
     distinct (map fst predicted)"
  by (induction items history acc rule: predict_sensors.induct)
     (auto simp: py_index_back_def Let_def py_setitem_distinct split: if_splits)

lemma sync_stores_well_formed_prediction:
  assumes "sync lib self physical = Inr (self', t)"
  shows "predictions self' \<noteq> [] \<and>
         distinct (map fst (py_get (last (predictions self')) ''sensors'' []))"
proof -
  from assms obtain predicted where
    p: "predict_sensors (sensors physical) (physical_history self @ [physical]) [] = Inr predicted" and
    s: "predictions self' = predictions self @ [[(''sensors'', predicted)]]"
    by (auto elim!: sync_Inr_cases)
  have "distinct (map fst predicted)"
    using predict_sensors_distinct [OF _ p] by simp
  then show ?thesis
    by (simp add: s py_get_def)
qed

text \<open>
  C6. On a call with no prediction stored (the first call of an engine) the returned
  \<^verbatim>\<open>sync_accuracy\<close> is exactly 0.5. On a later call, the last stored prediction being a
  well-formed dictionary, the value \<^verbatim>\<open>_compute_sync_accuracy\<close> computes is the mean over
  the sensor keys present in both the last prediction and the new snapshot of
  \<open>1 - min 1 |predicted - actual|\<close>, the returned field is that value rounded to 4
  decimals, and it is 0 when they share no key. Every call leaves a well-formed
  prediction for the next one.
\<close>
theorem sync_accuracy_first_and_later:
  assumes "sync lib self physical = Inr (self', t)"
  shows "(predictions self = [] \<longrightarrow> sync_accuracy t = 0.5) \<and>
         (predictions self \<noteq> [] \<and>
          distinct (map fst (py_get (last (predictions self)) ''sensors'' [])) \<longrightarrow>
            compute_sync_accuracy (appended self physical) physical =
              Inr (sync_accuracy_spec (py_get (last (predictions self)) ''sensors'' [])
                     (sensors physical)) \<and>
            sync_accuracy t =
              py_round (sync_accuracy_spec (py_get (last (predictions self)) ''sensors'' [])
                          (sensors physical)) 4 \<and>
            (shared_keys (py_get (last (predictions self)) ''sensors'' []) (sensors physical) = {}
               \<longrightarrow> sync_accuracy t = 0)) \<and>
         predictions self' \<noteq> [] \<and>
         distinct (map fst (py_get (last (predictions self')) ''sensors'' []))"
proof -
  note stored = sync_stores_well_formed_prediction [OF assms]
  from assms obtain sa where
    sa: "compute_sync_accuracy (appended self physical) physical = Inr sa" and
    t: "sync_accuracy t = py_round sa 4"
    by (auto elim!: sync_Inr_cases)
  have first: "sync_accuracy t = 0.5" if "predictions self = []"
  proof -
    have "compute_sync_accuracy (appended self physical) physical = Inr (1 / 2)"
      using that by (simp add: compute_sync_accuracy_def appended_def)
    with sa have "sa = 1 / 2" by simp
    then have "py_round sa 4 = 1 / 2"
      by (simp only: py_round_simple)
    with t show ?thesis by simp
  qed
  have later: "compute_sync_accuracy (appended self physical) physical =
              Inr (sync_accuracy_spec (py_get (last (predictions self)) ''sensors'' [])
                     (sensors physical)) \<and>
            sync_accuracy t =
              py_round (sync_accuracy_spec (py_get (last (predictions self)) ''sensors'' [])
                          (sensors physical)) 4 \<and>
            (shared_keys (py_get (last (predictions self)) ''sensors'' []) (sensors physical) = {}
               \<longrightarrow> sync_accuracy t = 0)"
    if "predictions self \<noteq> [] \<and>
          distinct (map fst (py_get (last (predictions self)) ''sensors'' []))"
  proof -
    let ?spec = "sync_accuracy_spec (py_get (last (predictions self)) ''sensors'' []) (sensors physical)"
    have c: "compute_sync_accuracy (appended self physical) physical = Inr ?spec"
      using that by (intro compute_sync_accuracy_spec) simp_all
    with sa have "sa = ?spec" by simp
    with t have r: "sync_accuracy t = py_round ?spec 4" by simp
    have "sync_accuracy t = 0"
      if "shared_keys (py_get (last (predictions self)) ''sensors'' []) (sensors physical) = {}"
      using r that by (simp add: sync_accuracy_spec_def)
    with c r show ?thesis by blast
  qed
  from first later stored show ?thesis by blast
qed

theorem sync_accuracy_first_and_later_witness:
  "\<forall>lib. \<exists>self' t.
     sync lib (init ''T1'' ''D1'') (snapshot [(''x'', 1)] 1 ''t1'') = Inr (after_first lib, first_state lib) \<and>
     sync_accuracy (first_state lib) = 1 / 2 \<and>
     sync lib (after_first lib) (snapshot [(''x'', 1.6)] 1 ''t2'') = Inr (self', t) \<and>
     py_get (last (predictions (after_first lib))) ''sensors'' [] = [(''x'', 1)] \<and>
     sync_accuracy_spec [(''x'', 1)] [(''x'', 1.6)] = 2 / 5 \<and>
     sync_accuracy t = 2 / 5"
proof
  fix lib
  let ?p = "snapshot [(''x'', 1.6)] 1 ''t2''"
  have "predictions (init ''T1'' ''D1'') = []"
    by (simp add: init_def)
  with sync_accuracy_first_and_later [OF first_call [of lib]]
  have one: "sync_accuracy (first_state lib) = 1 / 2"
    by simp
  have "\<exists>self' t. sync lib (after_first lib) ?p = Inr (self', t)"
    by (simp add: run_defs)
  then obtain self' t where call: "sync lib (after_first lib) ?p = Inr (self', t)"
    by blast
  have pred: "py_get (last (predictions (after_first lib))) ''sensors'' [] = [(''x'', 1)]"
    by (simp add: after_first_def py_get_def)
  have wf: "predictions (after_first lib) \<noteq> [] \<and>
      distinct (map fst (py_get (last (predictions (after_first lib))) ''sensors'' []))"
    using sync_accuracy_first_and_later [OF first_call [of lib]] by blast
  have spec: "sync_accuracy_spec [(''x'', 1)] [(''x'', 1.6)] = 2 / 5"
    by (simp add: sync_accuracy_spec_def shared_keys_def)
  have value_here: "sync_accuracy_spec (py_get (last (predictions (after_first lib))) ''sensors'' [])
                  (sensors ?p) = 2 / 5"
    by (simp add: pred snapshot_def sync_accuracy_spec_def shared_keys_def)
  from sync_accuracy_first_and_later [OF call] wf
  have "sync_accuracy t =
      py_round (sync_accuracy_spec (py_get (last (predictions (after_first lib))) ''sensors'' [])
                  (sensors ?p)) 4"
    by blast
  then have "sync_accuracy t = py_round (2 / 5) 4"
    by (simp only: value_here)
  then have two: "sync_accuracy t = 2 / 5"
    by (simp add: py_round_def round_half_even_def)
  show "\<exists>self' t.
     sync lib (init ''T1'' ''D1'') (snapshot [(''x'', 1)] 1 ''t1'') = Inr (after_first lib, first_state lib) \<and>
     sync_accuracy (first_state lib) = 1 / 2 \<and>
     sync lib (after_first lib) ?p = Inr (self', t) \<and>
     py_get (last (predictions (after_first lib))) ''sensors'' [] = [(''x'', 1)] \<and>
     sync_accuracy_spec [(''x'', 1)] [(''x'', 1.6)] = 2 / 5 \<and>
     sync_accuracy t = 2 / 5"
    using first_call one call pred spec two by (intro exI conjI)
qed

subsection \<open>C7: the anomaly count\<close>

lemma detect_anomalies_spec:
  assumes "distinct (map fst (sensors physical))"
  shows "detect_anomalies (appended self physical) physical =
           Inr (if physical_history self = [] then 0
                else anomalies_spec (sensors physical) (sensors (last (physical_history self))))"
proof (cases "physical_history self = []")
  case True
  then show ?thesis
    by (simp add: detect_anomalies_def appended_def)
next
  case False
  let ?cur = "sensors physical" and ?prev = "sensors (last (physical_history self))"
  let ?P = "\<lambda>key. py_contains ?prev key \<and> 0.5 < \<bar>the (map_of ?cur key) - the (map_of ?prev key)\<bar>"
  have idx: "(physical_history self @ [physical]) ! (length (physical_history self) - Suc 0) =
      last (physical_history self)"
    using False by (simp add: nth_append last_conv_nth)
  have "detect_anomalies (appended self physical) physical =
      Inr (length (filter ?P (map fst ?cur)))"
    using False by (simp add: detect_anomalies_value appended_def idx)
  moreover have "length (filter ?P (map fst ?cur)) = card ({key. ?P key} \<inter> set (map fst ?cur))"
    using assms by (rule distinct_length_filter)
  moreover have "{key. ?P key} \<inter> set (map fst ?cur) =
      {key \<in> shared_keys ?cur ?prev. 0.5 < \<bar>the (map_of ?cur key) - the (map_of ?prev key)\<bar>}"
    by (auto simp: shared_keys_def py_contains_iff)
  ultimately show ?thesis
    using False by (simp add: anomalies_spec_def)
qed

lemma anomalies_spec_none:
  assumes "\<forall>key \<in> shared_keys cur prev. the (map_of cur key) = the (map_of prev key)"
  shows "anomalies_spec cur prev = 0"
proof -
  have "{key \<in> shared_keys cur prev. 0.5 < \<bar>the (map_of cur key) - the (map_of prev key)\<bar>} = {}"
    using assms by auto
  then show ?thesis by (simp only: anomalies_spec_def card.empty)
qed

lemma shared_keys_py_setitem:
  "key0 \<in> fst ` set cur \<Longrightarrow> shared_keys (py_setitem cur key0 v) prev = shared_keys cur prev"
  by (auto simp: shared_keys_def py_setitem_keys)

lemma anomalies_spec_changed:
  assumes "key0 \<in> shared_keys cur prev"
      and "the (map_of cur key0) = the (map_of prev key0)"
      and "0.5 < \<bar>delta\<bar>"
  shows "anomalies_spec (py_setitem cur key0 (the (map_of cur key0) + delta)) prev =
           anomalies_spec cur prev + 1"
proof -
  let ?new = "py_setitem cur key0 (the (map_of cur key0) + delta)"
  let ?A = "{key \<in> shared_keys cur prev. 0.5 < \<bar>the (map_of cur key) - the (map_of prev key)\<bar>}"
  have k: "key0 \<in> fst ` set cur"
    using assms(1) by (simp add: shared_keys_def)
  have eq: "{key \<in> shared_keys ?new prev. 0.5 < \<bar>the (map_of ?new key) - the (map_of prev key)\<bar>}
        = insert key0 ?A"
    using assms by (auto simp: shared_keys_py_setitem [OF k] map_of_py_setitem)
  have "key0 \<notin> ?A"
    using assms(2) by simp
  moreover have "finite ?A"
    by (simp add: shared_keys_def)
  ultimately have "card (insert key0 ?A) = Suc (card ?A)"
    by (intro card_insert_disjoint)
  then show ?thesis
    by (simp only: anomalies_spec_def eq Suc_eq_plus1)
qed

text \<open>
  C7. The returned \<^verbatim>\<open>anomalies_detected\<close> is 0 on the first call of an engine (fewer
  than 2 snapshots in the history); otherwise it is the number of sensor keys present in
  both the new snapshot and the one before it whose value moved by more than 0.5. So it
  is 0 when the shared keys all kept their values, and changing the value of one shared
  key that had kept its value by more than 0.5 makes the count one larger. The new
  snapshot's sensors are a well-formed dictionary.
\<close>
theorem anomalies_detected_value:
  assumes "sync lib self physical = Inr (self', t)"
      and "distinct (map fst (sensors physical))"
  shows "(physical_history self = [] \<longrightarrow> anomalies_detected t = 0) \<and>
         (physical_history self \<noteq> [] \<longrightarrow>
            anomalies_detected t =
              anomalies_spec (sensors physical) (sensors (last (physical_history self))) \<and>
            ((\<forall>key \<in> shared_keys (sensors physical) (sensors (last (physical_history self))).
                 the (map_of (sensors physical) key) =
                 the (map_of (sensors (last (physical_history self))) key))
               \<longrightarrow> anomalies_detected t = 0) \<and>
            (key0 \<in> shared_keys (sensors physical) (sensors (last (physical_history self))) \<and>
             the (map_of (sensors physical) key0) =
               the (map_of (sensors (last (physical_history self))) key0) \<and>
             0.5 < \<bar>delta\<bar> \<and>
             sync lib self
               (physical\<lparr>sensors := py_setitem (sensors physical) key0
                                       (the (map_of (sensors physical) key0) + delta)\<rparr>)
               = Inr (self'', t')
               \<longrightarrow> anomalies_detected t' = anomalies_detected t + 1))"
proof -
  have v: "anomalies_detected s =
      (if physical_history self = [] then 0
       else anomalies_spec (sensors p) (sensors (last (physical_history self))))"
    if "sync lib self p = Inr (e, s)" "distinct (map fst (sensors p))" for p e s
  proof -
    from that(1) obtain anomalies where
      a: "detect_anomalies (appended self p) p = Inr anomalies" and
      s: "anomalies_detected s = anomalies"
      by (auto elim!: sync_Inr_cases)
    from a show ?thesis
      unfolding s detect_anomalies_spec [OF that(2)] by simp
  qed
  let ?cur = "sensors physical" and ?prev = "sensors (last (physical_history self))"
  let ?changed = "physical\<lparr>sensors := py_setitem ?cur key0 (the (map_of ?cur key0) + delta)\<rparr>"
  have d: "distinct (map fst (sensors ?changed))"
    using assms(2) by (simp add: py_setitem_distinct)
  have more: "anomalies_detected t' = anomalies_detected t + 1"
    if "physical_history self \<noteq> []"
       "key0 \<in> shared_keys ?cur ?prev" "the (map_of ?cur key0) = the (map_of ?prev key0)"
       "0.5 < \<bar>delta\<bar>" "sync lib self ?changed = Inr (self'', t')"
  proof -
    have "anomalies_detected t' = anomalies_spec (sensors ?changed) ?prev"
      using v [OF that(5) d] that(1) by simp
    also have "\<dots> = anomalies_spec ?cur ?prev + 1"
      using anomalies_spec_changed [OF that(2,3,4)] by simp
    also have "\<dots> = anomalies_detected t + 1"
      using v [OF assms] that(1) by simp
    finally show ?thesis .
  qed
  show ?thesis
    using v [OF assms] anomalies_spec_none [of ?cur ?prev] more by auto
qed

theorem anomalies_detected_value_witness:
  "\<forall>lib. \<exists>self' t self'' t'.
     sync lib (init ''T1'' ''D1'') (snapshot [(''x'', 1)] 1 ''t1'') = Inr (after_first lib, first_state lib) \<and>
     anomalies_detected (first_state lib) = 0 \<and>
     sync lib (after_first lib) (snapshot [(''x'', 1)] 1 ''t2'') = Inr (self', t) \<and>
     anomalies_detected t = 0 \<and>
     (snapshot [(''x'', 1)] 1 ''t2'')\<lparr>sensors := py_setitem [(''x'', 1)] ''x'' (1 + 0.6)\<rparr> =
       snapshot [(''x'', 1.6)] 1 ''t2'' \<and>
     sync lib (after_first lib) (snapshot [(''x'', 1.6)] 1 ''t2'') = Inr (self'', t') \<and>
     anomalies_detected t' = 1"
proof
  fix lib
  let ?same = "snapshot [(''x'', 1)] 1 ''t2''" and ?moved = "snapshot [(''x'', 1.6)] 1 ''t2''"
  have d1: "distinct (map fst (sensors (snapshot [(''x'', 1)] 1 ''t1'')))"
    and d2: "distinct (map fst (sensors ?same))"
    by (simp_all add: snapshot_def)
  have "physical_history (init ''T1'' ''D1'') = []"
    by (simp add: init_def)
  with anomalies_detected_value [OF first_call [of lib] d1]
  have zero: "anomalies_detected (first_state lib) = 0"
    by blast
  have "\<exists>self' t. sync lib (after_first lib) ?same = Inr (self', t)"
    by (simp add: run_defs)
  then obtain self' t where same: "sync lib (after_first lib) ?same = Inr (self', t)"
    by blast
  have "\<exists>self' t. sync lib (after_first lib) ?moved = Inr (self', t)"
    by (simp add: run_defs)
  then obtain self'' t' where moved: "sync lib (after_first lib) ?moved = Inr (self'', t')"
    by blast
  have h: "physical_history (after_first lib) \<noteq> []"
    and prev: "sensors (last (physical_history (after_first lib))) = [(''x'', 1)]"
    and cur: "sensors ?same = [(''x'', 1)]"
    by (simp_all add: after_first_def snapshot_def)
  have change: "?same\<lparr>sensors := py_setitem [(''x'', 1)] ''x'' (1 + 0.6)\<rparr> = ?moved"
    by (simp add: snapshot_def)
  note c7 = anomalies_detected_value [OF same d2, of "''x''" "0.6" self'' t']
  have all_same: "\<forall>key \<in> shared_keys (sensors ?same) (sensors (last (physical_history (after_first lib)))).
          the (map_of (sensors ?same) key) =
          the (map_of (sensors (last (physical_history (after_first lib)))) key)"
    by (simp add: prev cur)
  with c7 h have unchanged: "anomalies_detected t = 0"
    by blast
  have "''x'' \<in> shared_keys (sensors ?same) (sensors (last (physical_history (after_first lib))))"
    "the (map_of (sensors ?same) ''x'') =
       the (map_of (sensors (last (physical_history (after_first lib)))) ''x'')"
    "0.5 < \<bar>0.6 :: real\<bar>"
    "sync lib (after_first lib)
       (?same\<lparr>sensors := py_setitem (sensors ?same) ''x''
                               (the (map_of (sensors ?same) ''x'') + 0.6)\<rparr>) = Inr (self'', t')"
    using moved change by (simp_all add: prev cur shared_keys_def)
  with c7 h have "anomalies_detected t' = anomalies_detected t + 1"
    by blast
  with unchanged have changed: "anomalies_detected t' = 1"
    by simp
  show "\<exists>self' t self'' t'.
     sync lib (init ''T1'' ''D1'') (snapshot [(''x'', 1)] 1 ''t1'') = Inr (after_first lib, first_state lib) \<and>
     anomalies_detected (first_state lib) = 0 \<and>
     sync lib (after_first lib) ?same = Inr (self', t) \<and>
     anomalies_detected t = 0 \<and>
     ?same\<lparr>sensors := py_setitem [(''x'', 1)] ''x'' (1 + 0.6)\<rparr> = ?moved \<and>
     sync lib (after_first lib) ?moved = Inr (self'', t') \<and>
     anomalies_detected t' = 1"
    using first_call zero same unchanged change moved changed by (intro exI conjI)
qed

subsection \<open>C8: what sync can raise\<close>

text \<open>
  C8 states that \<^verbatim>\<open>sync\<close> never raises. No division, index or dictionary subscript of
  it can fail (\<open>sync_Inl\<close>: the only exception that leaves it is OverflowError), and with
  no sensors the integration indicator is 0 (\<open>sensor_integration_empty\<close>). But the
  squares \<^verbatim>\<open>(v - mean) ** 2\<close> raise OverflowError on large values: the first call of a
  fresh engine with the sensors \<open>{"a": 1e200, "b": 3e200}\<close> raises it, and leaves the
  snapshot appended to the engine's \<^verbatim>\<open>physical_history\<close>.
\<close>
theorem sync_raises_on_large_sensor_values:
  "sync lib (init ''T1'' ''D1'')
     (snapshot [(''a'', 10 ^ 200), (''b'', 3 * 10 ^ 200)] 1 ''t1'') =
   Inl (OverflowError,
        appended (init ''T1'' ''D1'') (snapshot [(''a'', 10 ^ 200), (''b'', 3 * 10 ^ 200)] 1 ''t1''))"
  by (simp add: sync_defs appended_def float_pow2_def float_overflow_def)

subsection \<open>C9: a proof hash covers five fields and nothing of the chain\<close>

text \<open>
  C9. The hash a call appends is the digest of the serialised record of five fields:
  the engine's \<^verbatim>\<open>twin_id\<close>, the snapshot's timestamp, the composite score rounded to
  6 decimals, the label and the anomaly count. Two calls, on any two engines, that agree
  on these five values append the same hash, whatever their proof chains held before.
\<close>
theorem proof_hash_of_five_fields:
  assumes "sync lib self1 physical1 = Inr (self1', t1)"
      and "sync lib self2 physical2 = Inr (self2', t2)"
  shows "\<exists>score1 score2.
           sync_score self1 physical1 = Inr score1 \<and> sync_score self2 physical2 = Inr score2 \<and>
           proof_hash t1 = sha256_hexdigest lib (json_dumps lib
             \<lparr>pd_twin_id = self_twin_id self1, pd_timestamp = timestamp physical1,
              pd_score = py_round score1 6, pd_level = consciousness_level t1,
              pd_anomalies = anomalies_detected t1\<rparr>) \<and>
           proof_chain self1' = proof_chain self1 @ [proof_hash t1] \<and>
           (self_twin_id self1 = self_twin_id self2 \<and> timestamp physical1 = timestamp physical2 \<and>
            py_round score1 6 = py_round score2 6 \<and>
            consciousness_level t1 = consciousness_level t2 \<and>
            anomalies_detected t1 = anomalies_detected t2
            \<longrightarrow> proof_hash t1 = proof_hash t2)"
proof -
  have fields: "\<exists>score. sync_score self physical = Inr score \<and>
           proof_hash t = sha256_hexdigest lib (json_dumps lib
             \<lparr>pd_twin_id = self_twin_id self, pd_timestamp = timestamp physical,
              pd_score = py_round score 6, pd_level = consciousness_level t,
              pd_anomalies = anomalies_detected t\<rparr>) \<and>
           proof_chain self' = proof_chain self @ [proof_hash t]"
    if "sync lib self physical = Inr (self', t)" for self physical self' t
    using that by (auto elim!: sync_Inr_cases)
  from fields [OF assms(1)] obtain score1 where
    s1: "sync_score self1 physical1 = Inr score1" and
    h1: "proof_hash t1 = sha256_hexdigest lib (json_dumps lib
             \<lparr>pd_twin_id = self_twin_id self1, pd_timestamp = timestamp physical1,
              pd_score = py_round score1 6, pd_level = consciousness_level t1,
              pd_anomalies = anomalies_detected t1\<rparr>)" and
    c1: "proof_chain self1' = proof_chain self1 @ [proof_hash t1]"
    by blast
  from fields [OF assms(2)] obtain score2 where
    s2: "sync_score self2 physical2 = Inr score2" and
    h2: "proof_hash t2 = sha256_hexdigest lib (json_dumps lib
             \<lparr>pd_twin_id = self_twin_id self2, pd_timestamp = timestamp physical2,
              pd_score = py_round score2 6, pd_level = consciousness_level t2,
              pd_anomalies = anomalies_detected t2\<rparr>)"
    by blast
  have "proof_hash t1 = proof_hash t2"
    if "self_twin_id self1 = self_twin_id self2 \<and> timestamp physical1 = timestamp physical2 \<and>
        py_round score1 6 = py_round score2 6 \<and>
        consciousness_level t1 = consciousness_level t2 \<and>
        anomalies_detected t1 = anomalies_detected t2"
    using that unfolding h1 h2 by simp
  with s1 s2 h1 c1 show ?thesis
    by (intro exI [of _ score1] exI [of _ score2] conjI impI)
qed

theorem proof_hash_of_five_fields_witness:
  "\<forall>lib. \<exists>self1' t1 self2' t2.
     sync lib (init ''T1'' ''D1'') (snapshot [(''x'', 1)] 1 ''t2'') = Inr (self1', t1) \<and>
     sync lib (init ''T1'' ''D1'') (snapshot [(''x'', 1)] 1 ''t1'') = Inr (after_first lib, first_state lib) \<and>
     sync lib (after_first lib) (snapshot [(''x'', 1)] 0.4 ''t2'') = Inr (self2', t2) \<and>
     proof_chain (init ''T1'' ''D1'') = [] \<and>
     proof_chain (after_first lib) = [proof_hash (first_state lib)] \<and>
     proof_hash t1 = proof_hash t2 \<and>
     last (proof_chain self1') = last (proof_chain self2')"
proof
  fix lib
  let ?p1 = "snapshot [(''x'', 1)] 1 ''t2''" and ?p2 = "snapshot [(''x'', 1)] 0.4 ''t2''"
  have "\<exists>self' t. sync lib (init ''T1'' ''D1'') ?p1 = Inr (self', t) \<and>
          consciousness_level t = ''C-1 Functional'' \<and> anomalies_detected t = 0"
    by (simp add: run_defs)
  then obtain self1' t1 where
    call1: "sync lib (init ''T1'' ''D1'') ?p1 = Inr (self1', t1)" and
    l1: "consciousness_level t1 = ''C-1 Functional''" and a1: "anomalies_detected t1 = 0"
    by blast
  have "\<exists>self' t. sync lib (after_first lib) ?p2 = Inr (self', t) \<and>
          consciousness_level t = ''C-1 Functional'' \<and> anomalies_detected t = 0"
    by (simp add: run_defs)
  then obtain self2' t2 where
    call2: "sync lib (after_first lib) ?p2 = Inr (self2', t2)" and
    l2: "consciousness_level t2 = ''C-1 Functional''" and a2: "anomalies_detected t2 = 0"
    by blast
  have sc1: "sync_score (init ''T1'' ''D1'') ?p1 = Inr (13 / 30)"
    by (simp add: run_defs)
  have sc2: "sync_score (after_first lib) ?p2 = Inr (13 / 30)"
    by (simp add: run_defs)
  from proof_hash_of_five_fields [OF call1 call2] obtain s1 s2 where
    s1: "sync_score (init ''T1'' ''D1'') ?p1 = Inr s1" and
    s2: "sync_score (after_first lib) ?p2 = Inr s2" and
    c1: "proof_chain self1' = proof_chain (init ''T1'' ''D1'') @ [proof_hash t1]" and
    same: "self_twin_id (init ''T1'' ''D1'') = self_twin_id (after_first lib) \<and>
           timestamp ?p1 = timestamp ?p2 \<and> py_round s1 6 = py_round s2 6 \<and>
           consciousness_level t1 = consciousness_level t2 \<and>
           anomalies_detected t1 = anomalies_detected t2
           \<longrightarrow> proof_hash t1 = proof_hash t2"
    by blast
  from proof_hash_of_five_fields [OF call2 call1] have
    c2: "proof_chain self2' = proof_chain (after_first lib) @ [proof_hash t2]"
    by blast
  have "s1 = s2"
    using s1 s2 sc1 sc2 by simp
  then have "py_round s1 6 = py_round s2 6"
    by simp
  moreover have "self_twin_id (init ''T1'' ''D1'') = self_twin_id (after_first lib)"
    "timestamp ?p1 = timestamp ?p2"
    by (simp_all add: init_def after_first_def snapshot_def)
  ultimately have eq: "proof_hash t1 = proof_hash t2"
    using same l1 l2 a1 a2 by simp
  have e1: "proof_chain (init ''T1'' ''D1'') = []"
    by (simp add: init_def)
  have e2: "proof_chain (after_first lib) = [proof_hash (first_state lib)]"
    by (simp add: after_first_def)
  have lasts: "last (proof_chain self1') = last (proof_chain self2')"
    using c1 c2 eq by simp
  show "\<exists>self1' t1 self2' t2.
     sync lib (init ''T1'' ''D1'') ?p1 = Inr (self1', t1) \<and>
     sync lib (init ''T1'' ''D1'') (snapshot [(''x'', 1)] 1 ''t1'') = Inr (after_first lib, first_state lib) \<and>
     sync lib (after_first lib) ?p2 = Inr (self2', t2) \<and>
     proof_chain (init ''T1'' ''D1'') = [] \<and>
     proof_chain (after_first lib) = [proof_hash (first_state lib)] \<and>
     proof_hash t1 = proof_hash t2 \<and>
     last (proof_chain self1') = last (proof_chain self2')"
    using call1 first_call call2 e1 e2 eq lasts by (intro exI conjI)
qed

subsection \<open>C10: the label is taken from the unrounded score\<close>

lemma round_half_even_up:
  assumes "of_int k - 1 / 2 \<le> y" "y < of_int k" "odd (k - 1)"
  shows "round_half_even y = k"
proof -
  have "\<lfloor>y\<rfloor> = k - 1"
    using assms(1,2) by (simp add: floor_unique)
  then show ?thesis
    using assms by (simp add: round_half_even_def Let_def)
qed

lemma py_round_below_threshold:
  assumes "of_int k / 10 ^ 4 - 5 / 10 ^ 5 \<le> s" "s < of_int k / 10 ^ 4" "odd (k - 1)"
  shows "py_round s 4 = of_int k / 10 ^ 4"
proof -
  have "of_int k - 1 / 2 \<le> s * 10 ^ 4" "s * 10 ^ 4 < of_int k"
    using assms(1,2) by (simp_all add: field_simps)
  then have "round_half_even (s * 10 ^ 4) = k"
    using assms(3) by (rule round_half_even_up)
  then show ?thesis by (simp add: py_round_def)
qed

lemma classify_rounded_differs:
  assumes "0.84995 \<le> s \<and> s < 0.85 \<or> 0.69995 \<le> s \<and> s < 0.70 \<or>
           0.49995 \<le> s \<and> s < 0.50 \<or> 0.19995 \<le> s \<and> s < 0.20"
  shows "classify s \<noteq> classify (py_round s 4)"
proof -
  consider "0.84995 \<le> s \<and> s < 0.85" | "0.69995 \<le> s \<and> s < 0.70"
    | "0.49995 \<le> s \<and> s < 0.50" | "0.19995 \<le> s \<and> s < 0.20"
    using assms by blast
  then show ?thesis
  proof cases
    case 1
    then have "py_round s 4 = of_int 8500 / 10 ^ 4"
      by (intro py_round_below_threshold) simp_all
    with 1 show ?thesis by (simp add: classify_def)
  next
    case 2
    then have "py_round s 4 = of_int 7000 / 10 ^ 4"
      by (intro py_round_below_threshold) simp_all
    with 2 show ?thesis by (simp add: classify_def)
  next
    case 3
    then have "py_round s 4 = of_int 5000 / 10 ^ 4"
      by (intro py_round_below_threshold) simp_all
    with 3 show ?thesis by (simp add: classify_def)
  next
    case 4
    then have "py_round s 4 = of_int 2000 / 10 ^ 4"
      by (intro py_round_below_threshold) simp_all
    with 4 show ?thesis by (simp add: classify_def)
  qed
qed

text \<open>
  C10. The returned \<^verbatim>\<open>consciousness_level\<close> is the label of the unrounded composite
  score, the returned \<^verbatim>\<open>consciousness_score\<close> is that score rounded to 4 decimals; so
  whenever the score lies at most 0.00005 under a threshold (in \<open>[0.84995, 0.85)\<close>, and
  likewise under 0.70, 0.50 and 0.20) the returned label differs from the label the
  thresholds give to the returned score.
\<close>
theorem level_of_unrounded_score:
  assumes "sync lib self physical = Inr (self', t)"
  shows "\<exists>score. sync_score self physical = Inr score \<and>
           consciousness_level t = classify score \<and>
           consciousness_score t = py_round score 4 \<and>
           (0.84995 \<le> score \<and> score < 0.85 \<or> 0.69995 \<le> score \<and> score < 0.70 \<or>
            0.49995 \<le> score \<and> score < 0.50 \<or> 0.19995 \<le> score \<and> score < 0.20
            \<longrightarrow> consciousness_level t \<noteq> classify (consciousness_score t))"
proof -
  from assms obtain score where
    score: "sync_score self physical = Inr score" and
    level: "consciousness_level t = classify score" and
    rounded: "consciousness_score t = py_round score 4"
    by (auto elim!: sync_Inr_cases)
  have "0.84995 \<le> score \<and> score < 0.85 \<or> 0.69995 \<le> score \<and> score < 0.70 \<or>
        0.49995 \<le> score \<and> score < 0.50 \<or> 0.19995 \<le> score \<and> score < 0.20
        \<longrightarrow> consciousness_level t \<noteq> classify (consciousness_score t)"
    unfolding level rounded by (rule impI) (rule classify_rounded_differs)
  with score level rounded show ?thesis
    by (intro exI [of _ score] conjI)
qed

theorem level_of_unrounded_score_witness:
  "\<forall>lib. \<exists>self' t.
     sync lib (init ''T1'' ''D1'') (snapshot [(''x'', 1)] 1 ''t1'') = Inr (after_first lib, first_state lib) \<and>
     sync lib (after_first lib) (snapshot [(''x'', 1)] 0.7998 ''t2'') = Inr (self', t) \<and>
     sync_score (after_first lib) (snapshot [(''x'', 1)] 0.7998 ''t2'') = Inr (14999 / 30000) \<and>
     consciousness_level t = ''C-1 Functional'' \<and>
     consciousness_score t = 0.5 \<and>
     classify (consciousness_score t) = ''C-2 Emerging'' \<and>
     consciousness_level t \<noteq> classify (consciousness_score t)"
proof
  fix lib
  let ?p = "snapshot [(''x'', 1)] 0.7998 ''t2''"
  have "\<exists>self' t. sync lib (after_first lib) ?p = Inr (self', t)"
    by (simp add: run_defs)
  then obtain self' t where call: "sync lib (after_first lib) ?p = Inr (self', t)"
    by blast
  have score: "sync_score (after_first lib) ?p = Inr (14999 / 30000)"
    by (simp add: run_defs)
  from level_of_unrounded_score [OF call] obtain s where
    s: "sync_score (after_first lib) ?p = Inr s" and
    level: "consciousness_level t = classify s" and
    rounded: "consciousness_score t = py_round s 4" and
    differ: "0.49995 \<le> s \<and> s < 0.50 \<longrightarrow> consciousness_level t \<noteq> classify (consciousness_score t)"
    by blast
  from s score have val: "s = 14999 / 30000" by simp
  have l: "consciousness_level t = ''C-1 Functional''"
    using level val by (simp add: classify_def)
  have r: "consciousness_score t = 0.5"
    using rounded val by (simp add: py_round_def round_half_even_def)
  have c: "classify (consciousness_score t) = ''C-2 Emerging''"
    unfolding r by (simp add: classify_def)
  have d: "consciousness_level t \<noteq> classify (consciousness_score t)"
    using differ val by simp
  show "\<exists>self' t.
     sync lib (init ''T1'' ''D1'') (snapshot [(''x'', 1)] 1 ''t1'') = Inr (after_first lib, first_state lib) \<and>
     sync lib (after_first lib) ?p = Inr (self', t) \<and>
     sync_score (after_first lib) ?p = Inr (14999 / 30000) \<and>
     consciousness_level t = ''C-1 Functional'' \<and>
     consciousness_score t = 0.5 \<and>
     classify (consciousness_score t) = ''C-2 Emerging'' \<and>
     consciousness_level t \<noteq> classify (consciousness_score t)"
    using first_call call score l r c d by (intro exI conjI)
qed

end
